theory Spec2Isabelle
  imports Main "HOL-Library.Word"
begin

unbundle bit_operations_syntax

section \<open>Machine types and the constants of the header\<close>

type_synonym u8 = "8 word"
type_synonym u16 = "16 word"
type_synonym u32 = "32 word"

text \<open>
  \<^verbatim>\<open>Modbus.c\<close> includes \<^verbatim>\<open>Modbus.h\<close>, which is not part of the sources at hand.
  The constants whose values the specification fixes are defined below; those it
  leaves open (the engine-internal error codes, the communication states, the
  database selectors and the buffer capacity) are the fields of the record
  \<open>header\<close>, which every function that mentions one of them takes as its first
  argument. They are C \<^verbatim>\<open>int\<close> constants, hence of type \<open>int\<close> here, and each
  conversion the C code performs on them (to \<^verbatim>\<open>uint8_t\<close>, \<^verbatim>\<open>int8_t\<close>, \<^verbatim>\<open>uint32_t\<close>)
  is written out with \<open>word_of_int\<close>.
\<close>

record header =
  MAX_BUFFER :: nat
  ERR_NOT_MASTER :: int
  ERR_POLLING :: int
  ERR_BUFF_OVERFLOW :: int
  ERR_BAD_CRC :: int
  ERR_EXCEPTION :: int
  ERR_BAD_SIZE :: int
  ERR_TIME_OUT :: int
  ERR_BAD_SLAVE_ID :: int
  ERR_OK_QUERY :: int
  COM_IDLE :: int
  COM_WAITING :: int
  DB_COILS :: int
  DB_INPUT_COILS :: int
  DB_HOLDING_REGISTER :: int
  DB_INPUT_REGISTERS :: int

text \<open>Modelled from the spec: the byte offsets of a frame (enum of \<^verbatim>\<open>Modbus.h\<close>), after
  the wire format \<open>ID | FUNC | data\<close>, the big-endian pairs \<open>ADD_HI:ADD_LO\<close> and
  \<open>NB_HI:NB_LO\<close> and the exception code at offset 2.\<close>

definition ID :: nat where "ID = 0"
definition FUNC :: nat where "FUNC = 1"
definition ADD_HI :: nat where "ADD_HI = 2"
definition ADD_LO :: nat where "ADD_LO = 3"
definition NB_HI :: nat where "NB_HI = 4"
definition NB_LO :: nat where "NB_LO = 5"
definition BYTE_CNT :: nat where "BYTE_CNT = 6"

text \<open>Modelled from the spec: the eight supported function codes (enum of \<^verbatim>\<open>Modbus.h\<close>),
  0x01, 0x02, 0x03, 0x04, 0x05, 0x06, 0x0F and 0x10.\<close>

definition MB_FC_READ_COILS :: u8 where "MB_FC_READ_COILS = 1"
definition MB_FC_READ_DISCRETE_INPUT :: u8 where "MB_FC_READ_DISCRETE_INPUT = 2"
definition MB_FC_READ_REGISTERS :: u8 where "MB_FC_READ_REGISTERS = 3"
definition MB_FC_READ_INPUT_REGISTER :: u8 where "MB_FC_READ_INPUT_REGISTER = 4"
definition MB_FC_WRITE_COIL :: u8 where "MB_FC_WRITE_COIL = 5"
definition MB_FC_WRITE_REGISTER :: u8 where "MB_FC_WRITE_REGISTER = 6"
definition MB_FC_WRITE_MULTIPLE_COILS :: u8 where "MB_FC_WRITE_MULTIPLE_COILS = 15"
definition MB_FC_WRITE_MULTIPLE_REGISTERS :: u8 where "MB_FC_WRITE_MULTIPLE_REGISTERS = 16"

text \<open>Modelled from the spec: the exception codes sent on the wire (enum of
  \<^verbatim>\<open>Modbus.h\<close>), 0x01 ILLEGAL_FUNCTION, 0x02 ILLEGAL_DATA_ADDRESS and
  0x03 ILLEGAL_DATA_VALUE.\<close>

definition EXC_FUNC_CODE :: u8 where "EXC_FUNC_CODE = 1"
definition EXC_ADDR_RANGE :: u8 where "EXC_ADDR_RANGE = 2"
definition EXC_REGS_QUANT :: u8 where "EXC_REGS_QUANT = 3"

text \<open>Modelled from the spec: the frame sizes of \<^verbatim>\<open>Modbus.h\<close>; an exception frame has
  length 3 before the checksum, an echo response 6.\<close>

definition EXCEPTION_SIZE :: u8 where "EXCEPTION_SIZE = 3"
definition RESPONSE_SIZE :: u8 where "RESPONSE_SIZE = 6"

text \<open>The table \<^verbatim>\<open>fctsupported\<close> of the source.\<close>

definition fctsupported :: "u8 list" where
  "fctsupported =
     [MB_FC_READ_COILS, MB_FC_READ_DISCRETE_INPUT, MB_FC_READ_REGISTERS,
      MB_FC_READ_INPUT_REGISTER, MB_FC_WRITE_COIL, MB_FC_WRITE_REGISTER,
      MB_FC_WRITE_MULTIPLE_COILS, MB_FC_WRITE_MULTIPLE_REGISTERS]"

text \<open>The macros \<^verbatim>\<open>lowByte\<close> and \<^verbatim>\<open>highByte\<close>, applied to a 16-bit value and stored
  in a byte.\<close>

definition lowByte :: "u16 \<Rightarrow> u8" where
  "lowByte w = ucast (w AND 0xff)"

definition highByte :: "u16 \<Rightarrow> u8" where
  "highByte w = ucast (drop_bit 8 w)"

text \<open>\<^verbatim>\<open>word(H, L)\<close> writes \<open>L\<close> to byte 0 and \<open>H\<close> to byte 1 of a union read back as a
  16-bit value; the target is little-endian, so \<open>H\<close> is the high byte.\<close>

definition word :: "u8 \<Rightarrow> u8 \<Rightarrow> u16" where
  "word H L = push_bit 8 (ucast H) OR ucast L"

text \<open>A byte array is indexed as a function; \<open>frame_of\<close> lays a list out from index 0.\<close>

definition frame_of :: "u8 list \<Rightarrow> nat \<Rightarrow> u8" where
  "frame_of xs i = (if i < length xs then xs ! i else 0)"

section \<open>The checksum\<close>

text \<open>\<^verbatim>\<open>calcCRC\<close> works on \<^verbatim>\<open>unsigned int\<close>, 32 bits wide on the target, with byte
  counters \<open>i\<close> and \<open>j\<close>. The inner loop runs \<open>j\<close> from 1 to 8, the outer loop \<open>i\<close>
  from 0 up to \<open>u8length\<close>.\<close>

function calcCRC_bits :: "u8 \<Rightarrow> u32 \<Rightarrow> u32" where
  "calcCRC_bits j temp =
     (if j \<le> 8
      then (let flag = temp AND 0x0001;
                temp = drop_bit 1 temp;
                temp = (if flag \<noteq> 0 then temp XOR 0xA001 else temp)
            in calcCRC_bits (j + 1) temp)
      else temp)"
  by pat_completeness auto

function calcCRC_bytes :: "(nat \<Rightarrow> u8) \<Rightarrow> u8 \<Rightarrow> u8 \<Rightarrow> u32 \<Rightarrow> u32" where
  "calcCRC_bytes Buffer u8length i temp =
     (if i < u8length
      then calcCRC_bytes Buffer u8length (i + 1)
             (calcCRC_bits 1 (temp XOR ucast (Buffer (unat i))))
      else temp)"
  by pat_completeness auto

text \<open>The reference CRC-16/Modbus, after the words of the specification: 16 bits wide,
  initial value 0xFFFF, reflected (shifting right), polynomial 0xA001.\<close>

definition crc16_shift :: "u16 \<Rightarrow> u16" where
  "crc16_shift c = (if bit c 0 then drop_bit 1 c XOR 0xA001 else drop_bit 1 c)"

definition crc16_update :: "u16 \<Rightarrow> u8 \<Rightarrow> u16" where
  "crc16_update c b = (crc16_shift ^^ 8) (c XOR ucast b)"

definition crc16_modbus :: "u8 list \<Rightarrow> u16" where
  "crc16_modbus bs = foldl crc16_update 0xFFFF bs"

definition swap_bytes :: "u16 \<Rightarrow> u16" where
  "swap_bytes w = push_bit 8 w OR drop_bit 8 w"


definition calcCRC :: "(nat \<Rightarrow> u8) \<Rightarrow> u8 \<Rightarrow> u16" where
  "calcCRC Buffer u8length =
     (let temp = calcCRC_bytes Buffer u8length 0 0xFFFF;
          temp2 = drop_bit 8 temp;
          temp = push_bit 8 temp OR temp2;
          temp = temp AND 0xFFFF
      in ucast temp)"

section \<open>The ring buffer\<close>

text \<open>The fields of \<^verbatim>\<open>modbusRingBuffer_t\<close> as the source uses them; the byte-sized
  indices and counter follow their names and the \<^verbatim>\<open>uint8_t\<close> results of the functions
  that return them. The array has \<open>MAX_BUFFER\<close> elements, a positive constant.\<close>

record modbusRingBuffer =
  uxBuffer :: "nat \<Rightarrow> u8"
  u8start :: u8
  u8end :: u8
  u8available :: u8
  overflow :: bool

definition RingAdd :: "header \<Rightarrow> modbusRingBuffer \<Rightarrow> u8 \<Rightarrow> modbusRingBuffer" where
  "RingAdd K xRingBuffer u8Val =
     (let rb = xRingBuffer\<lparr>uxBuffer := (uxBuffer xRingBuffer)(unat (u8end xRingBuffer) := u8Val)\<rparr>;
          rb = rb\<lparr>u8end := of_nat ((unat (u8end rb) + 1) mod MAX_BUFFER K)\<rparr>
      in if unat (u8available rb) = MAX_BUFFER K
         then (let rb = rb\<lparr>overflow := True\<rparr>
               in rb\<lparr>u8start := of_nat ((unat (u8start rb) + 1) mod MAX_BUFFER K)\<rparr>)
         else (let rb = rb\<lparr>overflow := False\<rparr>
               in rb\<lparr>u8available := u8available rb + 1\<rparr>))"

definition RingClear :: "modbusRingBuffer \<Rightarrow> modbusRingBuffer" where
  "RingClear xRingBuffer =
     xRingBuffer\<lparr>u8start := 0, u8end := 0, u8available := 0, overflow := False\<rparr>"

definition RingCountBytes :: "modbusRingBuffer \<Rightarrow> u8" where
  "RingCountBytes xRingBuffer = u8available xRingBuffer"

text \<open>The copy loop of \<^verbatim>\<open>RingGetNBytes\<close>; \<open>buffer\<close> is the destination array.\<close>

function RingGetNBytes_loop ::
  "header \<Rightarrow> u8 \<Rightarrow> u8 \<Rightarrow> modbusRingBuffer \<Rightarrow> (nat \<Rightarrow> u8) \<Rightarrow> modbusRingBuffer \<times> (nat \<Rightarrow> u8) \<times> u8"
where
  "RingGetNBytes_loop K uNumber uCounter rb buffer =
     (if uCounter < uNumber \<and> uCounter < u8available rb
      then RingGetNBytes_loop K uNumber (uCounter + 1)
             (rb\<lparr>u8start := of_nat ((unat (u8start rb) + 1) mod MAX_BUFFER K)\<rparr>)
             (buffer(unat uCounter := uxBuffer rb (unat (u8start rb))))
      else (rb, buffer, uCounter))"
  by pat_completeness auto

definition RingGetNBytes ::
  "header \<Rightarrow> modbusRingBuffer \<Rightarrow> (nat \<Rightarrow> u8) \<Rightarrow> u8 \<Rightarrow> modbusRingBuffer \<times> (nat \<Rightarrow> u8) \<times> u8"
where
  "RingGetNBytes K xRingBuffer buffer uNumber =
     (if u8available xRingBuffer = 0 \<or> uNumber = 0 then (xRingBuffer, buffer, 0)
      else if unat uNumber > MAX_BUFFER K then (xRingBuffer, buffer, 0)
      else (case RingGetNBytes_loop K uNumber 0 xRingBuffer buffer of
              (rb, buffer, uCounter) \<Rightarrow>
                (let rb = rb\<lparr>u8available := u8available rb - uCounter\<rparr>;
                     rb = rb\<lparr>overflow := False\<rparr>;
                     rb = RingClear rb
                 in (rb, buffer, uCounter))))"

definition RingGetAllBytes ::
  "header \<Rightarrow> modbusRingBuffer \<Rightarrow> (nat \<Rightarrow> u8) \<Rightarrow> modbusRingBuffer \<times> (nat \<Rightarrow> u8) \<times> u8"
where
  "RingGetAllBytes K xRingBuffer buffer =
     RingGetNBytes K xRingBuffer buffer (u8available xRingBuffer)"

section \<open>The handler\<close>

text \<open>Modelled from the spec: the enumerations of \<^verbatim>\<open>Modbus.h\<close> for the role (master or
  slave) and for the hardware mode (interrupt per byte or DMA with idle-line detection).
  \<open>HW_OTHER\<close> stands for any other value the field \<open>xTypeHW\<close> may hold, which the
  comparisons in the source allow for.\<close>

datatype mb_masterslave = MB_SLAVE | MB_MASTER

datatype mb_hardware = USART_HW | USART_HW_DMA | HW_OTHER

text \<open>
  The fields of \<^verbatim>\<open>modbusHandler_t\<close> that the modelled functions touch, with the widths
  their names carry (\<open>i8\<close> fields are \<^verbatim>\<open>int8_t\<close>, kept as bytes and read with \<open>sint\<close>).
  A register bank is the array behind the handler's pointer: a list, empty for an
  absent bank; reading or writing past its end is undefined behaviour in C and makes
  the modelled function return \<open>None\<close>. The frame array \<open>u8Buffer\<close> is indexed as a
  function; its capacity, a constant of the header, is not modelled, and no index is
  checked against it. Two fields record what the engine hands to its collaborators:
  \<open>sent\<close> lists the byte strings passed to the UART transmit call, and \<open>notified\<close> the
  (task, value) pairs passed to \<^verbatim>\<open>xTaskNotify\<close>. Timers, the semaphore and the
  transceiver pin have no effect on the modelled fields and are left out; the wait on
  the transmit-complete flag is assumed to end.
\<close>

text \<open>Modelled from the spec: the field \<open>discrete_inputs\<close>, the fourth bank of the handle in
  the specification's data model. No statement of \<^verbatim>\<open>Modbus.c\<close> mentions a field for it.\<close>

record modbusHandler =
  uModbusType :: mb_masterslave
  xTypeHW :: mb_hardware
  u8id :: u8
  i8lastError :: u8
  i8state :: u8
  u8Buffer :: "nat \<Rightarrow> u8"
  u8BufferSize :: u8
  u16regsHR :: "u16 list"
  u16regsRO :: "u16 list"
  u16regsCoils :: "u16 list"
  discrete_inputs :: "u16 list"
  u16regHR_size :: u16
  u16regCoils_size :: u16
  u16InCnt :: u16
  u16OutCnt :: u16
  u16errCnt :: u16
  xBufferRX :: modbusRingBuffer
  sent :: "u8 list list"
  notified :: "(nat \<times> u32) list"

text \<open>The fields of a telegram (\<^verbatim>\<open>modbus_t\<close>); \<open>u32CurrentTask\<close> names the originator.\<close>

record modbus_t =
  tg_u8id :: u8
  tg_u8fct :: u8
  tg_u16RegAdd :: u16
  tg_u16CoilsNo :: u16
  tg_u16reg :: "u16 list"
  u32CurrentTask :: nat

definition xTaskNotify :: "nat \<Rightarrow> u32 \<Rightarrow> modbusHandler \<Rightarrow> modbusHandler" where
  "xTaskNotify task ulValue modH = modH\<lparr>notified := notified modH @ [(task, ulValue)]\<rparr>"

text \<open>Checked access to a register bank.\<close>

definition bank_read :: "u16 list \<Rightarrow> nat \<Rightarrow> u16 option" where
  "bank_read regs i = (if i < length regs then Some (regs ! i) else None)"

definition bank_write :: "u16 list \<Rightarrow> nat \<Rightarrow> u16 \<Rightarrow> u16 list option" where
  "bank_write regs i v = (if i < length regs then Some (regs[i := v]) else None)"

text \<open>The macros \<^verbatim>\<open>bitRead\<close>, \<^verbatim>\<open>bitSet\<close>, \<^verbatim>\<open>bitClear\<close> and \<^verbatim>\<open>bitWrite\<close>.\<close>

definition bitRead :: "'a::len word \<Rightarrow> nat \<Rightarrow> bool" where
  "bitRead v b = (drop_bit b v AND 0x01 \<noteq> 0)"

definition bitSet :: "'a::len word \<Rightarrow> nat \<Rightarrow> 'a word" where
  "bitSet v b = v OR push_bit b 1"

definition bitClear :: "'a::len word \<Rightarrow> nat \<Rightarrow> 'a word" where
  "bitClear v b = v AND NOT (push_bit b 1)"

definition bitWrite :: "'a::len word \<Rightarrow> nat \<Rightarrow> bool \<Rightarrow> 'a word" where
  "bitWrite v b bitvalue = (if bitvalue then bitSet v b else bitClear v b)"

section \<open>The send path and the exception frame\<close>

definition sendTxBuffer :: "modbusHandler \<Rightarrow> modbusHandler" where
  "sendTxBuffer modH =
     (let u16crc = calcCRC (u8Buffer modH) (u8BufferSize modH);
          h = modH\<lparr>u8Buffer := (u8Buffer modH)(unat (u8BufferSize modH) := ucast (drop_bit 8 u16crc))\<rparr>;
          h = h\<lparr>u8BufferSize := u8BufferSize h + 1\<rparr>;
          h = h\<lparr>u8Buffer := (u8Buffer h)(unat (u8BufferSize h) := ucast (u16crc AND 0x00ff))\<rparr>;
          h = h\<lparr>u8BufferSize := u8BufferSize h + 1\<rparr>;
          h = h\<lparr>sent := sent h @ [map (u8Buffer h) [0..<unat (u8BufferSize h)]]\<rparr>;
          h = h\<lparr>u8BufferSize := 0\<rparr>
      in h\<lparr>u16OutCnt := u16OutCnt h + 1\<rparr>)"

definition buildException :: "u8 \<Rightarrow> modbusHandler \<Rightarrow> modbusHandler" where
  "buildException u8exception modH =
     (let u8func = u8Buffer modH FUNC;
          h = modH\<lparr>u8Buffer := (u8Buffer modH)(ID := u8id modH)\<rparr>;
          h = h\<lparr>u8Buffer := (u8Buffer h)(FUNC := u8func + 0x80)\<rparr>;
          h = h\<lparr>u8Buffer := (u8Buffer h)(2 := u8exception)\<rparr>
      in h\<lparr>u8BufferSize := EXCEPTION_SIZE\<rparr>)"

section \<open>Receiving and validating\<close>

text \<open>\<^verbatim>\<open>getRxBuffer\<close> returns an \<^verbatim>\<open>int16_t\<close>: the overflow code or the frame length.\<close>

definition getRxBuffer :: "header \<Rightarrow> modbusHandler \<Rightarrow> modbusHandler \<times> u16" where
  "getRxBuffer K modH =
     (if overflow (xBufferRX modH)
      then (modH\<lparr>xBufferRX := RingClear (xBufferRX modH)\<rparr>, word_of_int (ERR_BUFF_OVERFLOW K))
      else (case RingGetAllBytes K (xBufferRX modH) (u8Buffer modH) of
              (rb, buffer, n) \<Rightarrow>
                (let h = modH\<lparr>xBufferRX := rb, u8Buffer := buffer, u8BufferSize := n\<rparr>;
                     h = h\<lparr>u16InCnt := u16InCnt h + 1\<rparr>
                 in (h, ucast (u8BufferSize h)))))"

text \<open>The checksum carried by the frame, as both validators combine it. The index
  \<open>u8BufferSize - 2\<close> is computed in \<^verbatim>\<open>int\<close>; both callers have checked that the frame
  has at least six bytes.\<close>

definition u16MsgCRC :: "modbusHandler \<Rightarrow> u16" where
  "u16MsgCRC modH =
     push_bit 8 (ucast (u8Buffer modH (unat (u8BufferSize modH) - 2)))
       OR ucast (u8Buffer modH (unat (u8BufferSize modH) - 1))"

definition isSupported :: "modbusHandler \<Rightarrow> bool" where
  "isSupported modH = (u8Buffer modH FUNC \<in> set fctsupported)"

text \<open>The \<^verbatim>\<open>switch\<close> of \<^verbatim>\<open>validateRequest\<close>: the range check. Sums of two 16-bit values
  are computed in \<^verbatim>\<open>int\<close> and do not wrap; values stored back into \<open>u16NRegs\<close> do.\<close>

definition validateRequest_range :: "modbusHandler \<Rightarrow> u8" where
  "validateRequest_range modH =
     (let f = u8Buffer modH FUNC;
          add = word (u8Buffer modH ADD_HI) (u8Buffer modH ADD_LO);
          nb = word (u8Buffer modH NB_HI) (u8Buffer modH NB_LO)
      in if f = MB_FC_READ_COILS \<or> f = MB_FC_READ_DISCRETE_INPUT \<or> f = MB_FC_WRITE_MULTIPLE_COILS
         then (let u16AdRegs = add div 16;
                   u16NRegs = nb div 16;
                   u16NRegs = (if nb mod 16 \<noteq> 0 then u16NRegs + 1 else u16NRegs)
               in if unat u16AdRegs + unat u16NRegs > unat (u16regCoils_size modH)
                  then EXC_ADDR_RANGE
                  else (let u16NRegs = nb div 8;
                            u16NRegs = (if nb mod 8 \<noteq> 0 then u16NRegs + 1 else u16NRegs);
                            u16NRegs = u16NRegs + 5
                        in if unat u16NRegs > 256 then EXC_REGS_QUANT else 0))
         else if f = MB_FC_WRITE_COIL
         then (let u16AdRegs = add div 16;
                   u16AdRegs = (if add mod 16 \<noteq> 0 then u16AdRegs + 1 else u16AdRegs)
               in if u16AdRegs > u16regCoils_size modH then EXC_ADDR_RANGE else 0)
         else if f = MB_FC_WRITE_REGISTER
         then (let u16AdRegs = add
               in if u16AdRegs > u16regHR_size modH then EXC_ADDR_RANGE else 0)
         else if f = MB_FC_READ_REGISTERS \<or> f = MB_FC_READ_INPUT_REGISTER
                 \<or> f = MB_FC_WRITE_MULTIPLE_REGISTERS
         then (let u16AdRegs = add;
                   u16NRegs = nb
               in if unat u16AdRegs + unat u16NRegs > unat (u16regHR_size modH)
                  then EXC_ADDR_RANGE
                  else (let u16NRegs = u16NRegs * 2 + 5
                        in if unat u16NRegs > 256 then EXC_REGS_QUANT else 0))
         else 0)"

definition validateRequest :: "header \<Rightarrow> modbusHandler \<Rightarrow> modbusHandler \<times> u8" where
  "validateRequest K modH =
     (if calcCRC (u8Buffer modH) (u8BufferSize modH - 2) \<noteq> u16MsgCRC modH
      then (modH\<lparr>u16errCnt := u16errCnt modH + 1\<rparr>, word_of_int (ERR_BAD_CRC K))
      else if \<not> isSupported modH
      then (modH\<lparr>u16errCnt := u16errCnt modH + 1\<rparr>, EXC_FUNC_CODE)
      else (modH, validateRequest_range modH))"

definition validateAnswer :: "header \<Rightarrow> modbusHandler \<Rightarrow> modbusHandler \<times> u8" where
  "validateAnswer K modH =
     (if calcCRC (u8Buffer modH) (u8BufferSize modH - 2) \<noteq> u16MsgCRC modH
      then (modH\<lparr>u16errCnt := u16errCnt modH + 1\<rparr>, word_of_int (ERR_BAD_CRC K))
      else if u8Buffer modH FUNC AND 0x80 \<noteq> 0
      then (modH\<lparr>u16errCnt := u16errCnt modH + 1\<rparr>, word_of_int (ERR_EXCEPTION K))
      else if \<not> isSupported modH
      then (modH\<lparr>u16errCnt := u16errCnt modH + 1\<rparr>, EXC_FUNC_CODE)
      else (modH, 0))"


section \<open>The function handlers of the slave\<close>

text \<open>
  Each handler returns the updated handler and its \<^verbatim>\<open>int8_t\<close> result (the response
  length, kept as a byte), or \<open>None\<close> where the C code has no defined result: a bank
  read or written past its end, a pointer used before any assignment, or a loop that
  never ends. The local pointer \<open>u16regs\<close> of \<^verbatim>\<open>process_FC1\<close> and \<^verbatim>\<open>process_FC3\<close> is an
  \<open>option\<close>: \<open>None\<close> while nothing has been assigned to it.
\<close>

text \<open>One pass of the loop of \<^verbatim>\<open>process_FC1\<close>, for the coil with index \<open>u16currentCoil\<close>;
  the loop state is the handler and the bit counter \<open>u8bitsno\<close>.\<close>

definition process_FC1_step ::
  "u16 list \<Rightarrow> u16 \<Rightarrow> u16 \<Rightarrow> modbusHandler \<times> u8 \<Rightarrow> (modbusHandler \<times> u8) option"
where
  "process_FC1_step regs u16StartCoil u16currentCoil st =
     (case st of (modH, u8bitsno) \<Rightarrow>
        (let u16coil = u16StartCoil + u16currentCoil;
             u16currentRegister = u16coil div 16;
             u8currentBit = (ucast (u16coil mod 16) :: u8)
         in case bank_read regs (unat u16currentRegister) of
              None \<Rightarrow> None
            | Some r \<Rightarrow>
                (let h = modH\<lparr>u8Buffer := (u8Buffer modH)
                           (unat (u8BufferSize modH) :=
                              bitWrite (u8Buffer modH (unat (u8BufferSize modH))) (unat u8bitsno)
                                (bitRead r (unat u8currentBit)))\<rparr>;
                     u8bitsno = u8bitsno + 1
                 in if u8bitsno > 7
                    then Some (h\<lparr>u8BufferSize := u8BufferSize h + 1\<rparr>, 0)
                    else Some (h, u8bitsno))))"

partial_function (option) process_FC1_loop ::
  "u16 list option \<Rightarrow> u16 \<Rightarrow> u16 \<Rightarrow> u16 \<Rightarrow> modbusHandler \<times> u8 \<Rightarrow> (modbusHandler \<times> u8) option"
where
  "process_FC1_loop u16regs u16StartCoil u16Coilno u16currentCoil st =
     (if u16currentCoil < u16Coilno
      then (case u16regs of
              None \<Rightarrow> None
            | Some regs \<Rightarrow>
                (case process_FC1_step regs u16StartCoil u16currentCoil st of
                   None \<Rightarrow> None
                 | Some st' \<Rightarrow>
                     process_FC1_loop u16regs u16StartCoil u16Coilno (u16currentCoil + 1) st'))
      else Some st)"

definition process_FC1 :: "modbusHandler \<Rightarrow> u8 \<Rightarrow> (modbusHandler \<times> u8) option" where
  "process_FC1 modH Database =
     (let u16StartCoil = word (u8Buffer modH ADD_HI) (u8Buffer modH ADD_LO);
          u16Coilno = word (u8Buffer modH NB_HI) (u8Buffer modH NB_LO);
          u8bytesno = (ucast (u16Coilno div 8) :: u8);
          u8bytesno = (if u16Coilno mod 8 \<noteq> 0 then u8bytesno + 1 else u8bytesno);
          h = modH\<lparr>u8Buffer := (u8Buffer modH)(ADD_HI := u8bytesno)\<rparr>;
          h = h\<lparr>u8BufferSize := of_nat ADD_LO\<rparr>;
          h = h\<lparr>u8Buffer := (u8Buffer h)(unat (u8BufferSize h) + unat u8bytesno - 1 := 0)\<rparr>;
          u16regs = (if Database = 1 then Some (u16regsCoils h) else None)
      in case process_FC1_loop u16regs u16StartCoil u16Coilno 0 (h, 0) of
           None \<Rightarrow> None
         | Some (h, u8bitsno) \<Rightarrow>
             (let h = (if u16Coilno mod 8 \<noteq> 0 then h\<lparr>u8BufferSize := u8BufferSize h + 1\<rparr> else h);
                  u8CopyBufferSize = u8BufferSize h + 2
              in Some (sendTxBuffer h, u8CopyBufferSize)))"

text \<open>The loop of \<^verbatim>\<open>process_FC3\<close>: \<open>i\<close> is a 16-bit counter, the bound
  \<open>u16StartAdd + u8regsno\<close> is computed in \<^verbatim>\<open>int\<close>.\<close>

definition process_FC3_step :: "u16 \<Rightarrow> modbusHandler \<Rightarrow> modbusHandler" where
  "process_FC3_step r modH =
     (let h = modH\<lparr>u8Buffer := (u8Buffer modH)(unat (u8BufferSize modH) := highByte r)\<rparr>;
          h = h\<lparr>u8BufferSize := u8BufferSize h + 1\<rparr>;
          h = h\<lparr>u8Buffer := (u8Buffer h)(unat (u8BufferSize h) := lowByte r)\<rparr>
      in h\<lparr>u8BufferSize := u8BufferSize h + 1\<rparr>)"

partial_function (option) process_FC3_loop ::
  "u16 list option \<Rightarrow> nat \<Rightarrow> u16 \<Rightarrow> modbusHandler \<Rightarrow> modbusHandler option"
where
  "process_FC3_loop u16regs bound i modH =
     (if unat i < bound
      then (case u16regs of
              None \<Rightarrow> None
            | Some regs \<Rightarrow>
                (case bank_read regs (unat i) of
                   None \<Rightarrow> None
                 | Some r \<Rightarrow> process_FC3_loop u16regs bound (i + 1) (process_FC3_step r modH)))
      else Some modH)"

definition process_FC3 :: "header \<Rightarrow> modbusHandler \<Rightarrow> u8 \<Rightarrow> (modbusHandler \<times> u8) option" where
  "process_FC3 K modH Database =
     (let u16StartAdd = word (u8Buffer modH ADD_HI) (u8Buffer modH ADD_LO);
          u8regsno = (ucast (word (u8Buffer modH NB_HI) (u8Buffer modH NB_LO)) :: u8);
          h = modH\<lparr>u8Buffer := (u8Buffer modH)(2 := u8regsno * 2)\<rparr>;
          h = h\<lparr>u8BufferSize := 3\<rparr>;
          u16regs = (if uint Database = DB_HOLDING_REGISTER K then Some (u16regsHR h)
                     else if uint Database = DB_INPUT_REGISTERS K then Some (u16regsRO h)
                     else None)
      in case process_FC3_loop u16regs (unat u16StartAdd + unat u8regsno) u16StartAdd h of
           None \<Rightarrow> None
         | Some h \<Rightarrow>
             (let u8CopyBufferSize = u8BufferSize h + 2
              in Some (sendTxBuffer h, u8CopyBufferSize)))"

definition process_FC5 :: "modbusHandler \<Rightarrow> (modbusHandler \<times> u8) option" where
  "process_FC5 modH =
     (let u16coil = word (u8Buffer modH ADD_HI) (u8Buffer modH ADD_LO);
          u16currentRegister = u16coil div 16;
          u8currentBit = (ucast (u16coil mod 16) :: u8)
      in case bank_read (u16regsCoils modH) (unat u16currentRegister) of
           None \<Rightarrow> None
         | Some r \<Rightarrow>
             (let h = modH\<lparr>u16regsCoils := (u16regsCoils modH)
                        [unat u16currentRegister :=
                           bitWrite r (unat u8currentBit) (u8Buffer modH NB_HI = 0xff)]\<rparr>;
                  h = h\<lparr>u8BufferSize := 6\<rparr>;
                  u8CopyBufferSize = u8BufferSize h + 2
              in Some (sendTxBuffer h, u8CopyBufferSize)))"

definition process_FC6 :: "modbusHandler \<Rightarrow> (modbusHandler \<times> u8) option" where
  "process_FC6 modH =
     (let u16add = word (u8Buffer modH ADD_HI) (u8Buffer modH ADD_LO);
          u16val = word (u8Buffer modH NB_HI) (u8Buffer modH NB_LO)
      in case bank_write (u16regsHR modH) (unat u16add) u16val of
           None \<Rightarrow> None
         | Some regs \<Rightarrow>
             (let h = modH\<lparr>u16regsHR := regs\<rparr>;
                  h = h\<lparr>u8BufferSize := RESPONSE_SIZE\<rparr>;
                  u8CopyBufferSize = u8BufferSize h + 2
              in Some (sendTxBuffer h, u8CopyBufferSize)))"

text \<open>One pass of the loop of \<^verbatim>\<open>process_FC15\<close>; the loop state is the handler, the
  frame index \<open>u8frameByte\<close> and the bit counter \<open>u8bitsno\<close>.\<close>

definition process_FC15_step ::
  "u16 \<Rightarrow> u16 \<Rightarrow> modbusHandler \<times> u8 \<times> u8 \<Rightarrow> (modbusHandler \<times> u8 \<times> u8) option"
where
  "process_FC15_step u16StartCoil u16currentCoil st =
     (case st of (modH, u8frameByte, u8bitsno) \<Rightarrow>
        (let u16coil = u16StartCoil + u16currentCoil;
             u16currentRegister = u16coil div 16;
             u8currentBit = (ucast (u16coil mod 16) :: u8);
             bTemp = bitRead (u8Buffer modH (unat u8frameByte)) (unat u8bitsno)
         in case bank_read (u16regsCoils modH) (unat u16currentRegister) of
              None \<Rightarrow> None
            | Some r \<Rightarrow>
                (let h = modH\<lparr>u16regsCoils := (u16regsCoils modH)
                           [unat u16currentRegister := bitWrite r (unat u8currentBit) bTemp]\<rparr>;
                     u8bitsno = u8bitsno + 1
                 in if u8bitsno > 7
                    then Some (h, u8frameByte + 1, 0)
                    else Some (h, u8frameByte, u8bitsno))))"

partial_function (option) process_FC15_loop ::
  "u16 \<Rightarrow> u16 \<Rightarrow> u16 \<Rightarrow> modbusHandler \<times> u8 \<times> u8 \<Rightarrow> (modbusHandler \<times> u8 \<times> u8) option"
where
  "process_FC15_loop u16StartCoil u16Coilno u16currentCoil st =
     (if u16currentCoil < u16Coilno
      then (case process_FC15_step u16StartCoil u16currentCoil st of
              None \<Rightarrow> None
            | Some st' \<Rightarrow> process_FC15_loop u16StartCoil u16Coilno (u16currentCoil + 1) st')
      else Some st)"

definition process_FC15 :: "modbusHandler \<Rightarrow> (modbusHandler \<times> u8) option" where
  "process_FC15 modH =
     (let u16StartCoil = word (u8Buffer modH ADD_HI) (u8Buffer modH ADD_LO);
          u16Coilno = word (u8Buffer modH NB_HI) (u8Buffer modH NB_LO)
      in case process_FC15_loop u16StartCoil u16Coilno 0 (modH, 7, 0) of
           None \<Rightarrow> None
         | Some (h, u8frameByte, u8bitsno) \<Rightarrow>
             (let h = h\<lparr>u8BufferSize := 6\<rparr>;
                  u8CopyBufferSize = u8BufferSize h + 2
              in Some (sendTxBuffer h, u8CopyBufferSize)))"

partial_function (option) process_FC16_loop ::
  "u16 \<Rightarrow> u16 \<Rightarrow> u16 \<Rightarrow> modbusHandler \<Rightarrow> modbusHandler option"
where
  "process_FC16_loop u16StartAdd u16regsno i modH =
     (if i < u16regsno
      then (case bank_write (u16regsHR modH) (unat u16StartAdd + unat i)
                   (word (u8Buffer modH ((BYTE_CNT + 1) + unat i * 2))
                         (u8Buffer modH ((BYTE_CNT + 2) + unat i * 2))) of
              None \<Rightarrow> None
            | Some regs \<Rightarrow>
                process_FC16_loop u16StartAdd u16regsno (i + 1) (modH\<lparr>u16regsHR := regs\<rparr>))
      else Some modH)"

definition process_FC16 :: "modbusHandler \<Rightarrow> (modbusHandler \<times> u8) option" where
  "process_FC16 modH =
     (let u16StartAdd = (push_bit 8 (ucast (u8Buffer modH ADD_HI)) OR ucast (u8Buffer modH ADD_LO) :: u16);
          u16regsno = (push_bit 8 (ucast (u8Buffer modH NB_HI)) OR ucast (u8Buffer modH NB_LO) :: u16);
          h = modH\<lparr>u8Buffer := (u8Buffer modH)(NB_HI := 0)\<rparr>;
          h = h\<lparr>u8Buffer := (u8Buffer h)(NB_LO := ucast u16regsno)\<rparr>;
          h = h\<lparr>u8BufferSize := RESPONSE_SIZE\<rparr>
      in case process_FC16_loop u16StartAdd u16regsno 0 h of
           None \<Rightarrow> None
         | Some h \<Rightarrow>
             (let u8CopyBufferSize = u8BufferSize h + 2
              in Some (sendTxBuffer h, u8CopyBufferSize)))"

section \<open>The slave task\<close>

text \<open>
  One turn of the loop of \<^verbatim>\<open>StartTaskModbusSlave\<close> is modelled in two parts, split where
  the task blocks: \<open>StartTaskModbusSlave_wait\<close> is the statement before the task waits
  for the end-of-frame notification, \<open>StartTaskModbusSlave_wake\<close> everything from the
  wake-up to the \<^verbatim>\<open>continue\<close>. The received bytes are in the ring buffer when the task
  wakes up.
\<close>

definition StartTaskModbusSlave_wait :: "modbusHandler \<Rightarrow> modbusHandler" where
  "StartTaskModbusSlave_wait modH = modH\<lparr>i8lastError := 0\<rparr>"

definition StartTaskModbusSlave_switch :: "header \<Rightarrow> modbusHandler \<Rightarrow> modbusHandler option" where
  "StartTaskModbusSlave_switch K modH =
     (let f = u8Buffer modH FUNC;
          r = (if f = MB_FC_READ_COILS then process_FC1 modH (word_of_int (DB_COILS K))
               else if f = MB_FC_READ_DISCRETE_INPUT then process_FC1 modH (word_of_int (DB_INPUT_COILS K))
               else if f = MB_FC_READ_REGISTERS then process_FC3 K modH (word_of_int (DB_HOLDING_REGISTER K))
               else if f = MB_FC_READ_INPUT_REGISTER then process_FC3 K modH (word_of_int (DB_INPUT_REGISTERS K))
               else if f = MB_FC_WRITE_COIL then process_FC5 modH
               else if f = MB_FC_WRITE_REGISTER then process_FC6 modH
               else if f = MB_FC_WRITE_MULTIPLE_COILS then process_FC15 modH
               else if f = MB_FC_WRITE_MULTIPLE_REGISTERS then process_FC16 modH
               else Some (modH, i8state modH))
      in case r of None \<Rightarrow> None | Some (h, ret) \<Rightarrow> Some (h\<lparr>i8state := ret\<rparr>))"

text \<open>The handling of the frame that \<^verbatim>\<open>getRxBuffer\<close> has left in \<open>u8Buffer\<close>: the size
  check, the check of the slave id, the validation and the dispatch.\<close>

definition StartTaskModbusSlave_frame :: "header \<Rightarrow> modbusHandler \<Rightarrow> modbusHandler option" where
  "StartTaskModbusSlave_frame K modH =
     (if u8BufferSize modH < 7
      then (let h = modH\<lparr>i8lastError := word_of_int (ERR_BAD_SIZE K)\<rparr>
            in Some (h\<lparr>u16errCnt := u16errCnt h + 1\<rparr>))
      else if u8Buffer modH ID \<noteq> u8id modH
      then Some modH
      else (case validateRequest K modH of
              (h, u8exception) \<Rightarrow>
                if u8exception > 0
                then (let h = (if uint u8exception \<noteq> ERR_TIME_OUT K
                               then sendTxBuffer (buildException u8exception h)
                               else h)
                      in Some (h\<lparr>i8lastError := u8exception\<rparr>))
                else StartTaskModbusSlave_switch K (h\<lparr>i8lastError := 0\<rparr>)))"

definition StartTaskModbusSlave_wake :: "header \<Rightarrow> modbusHandler \<Rightarrow> modbusHandler option" where
  "StartTaskModbusSlave_wake K modH =
     (let hw = (xTypeHW modH = USART_HW \<or> xTypeHW modH = USART_HW_DMA)
      in case (if hw then getRxBuffer K modH else (modH, 0)) of
           (h, i16result) \<Rightarrow>
             if hw \<and> sint i16result = ERR_BUFF_OVERFLOW K
             then (let h = h\<lparr>i8lastError := word_of_int (ERR_BUFF_OVERFLOW K)\<rparr>
                   in Some (h\<lparr>u16errCnt := u16errCnt h + 1\<rparr>))
             else StartTaskModbusSlave_frame K h)"

section \<open>The master task\<close>

definition get_FC1_step :: "u8 \<Rightarrow> modbusHandler \<Rightarrow> modbusHandler option" where
  "get_FC1_step i modH =
     (let u8byte = (3 :: nat)
      in case bank_read (u16regsCoils modH) (unat i div 2) of
           None \<Rightarrow> None
         | Some r \<Rightarrow>
             Some (modH\<lparr>u16regsCoils := (u16regsCoils modH)
                     [unat i div 2 :=
                        (if i mod 2 \<noteq> 0
                         then word (u8Buffer modH (unat i + u8byte)) (lowByte r)
                         else word (highByte r) (u8Buffer modH (unat i + u8byte)))]\<rparr>))"

partial_function (option) get_FC1_loop :: "u8 \<Rightarrow> modbusHandler \<Rightarrow> modbusHandler option" where
  "get_FC1_loop i modH =
     (if i < u8Buffer modH 2
      then (case get_FC1_step i modH of
              None \<Rightarrow> None
            | Some h \<Rightarrow> get_FC1_loop (i + 1) h)
      else Some modH)"

definition get_FC1 :: "modbusHandler \<Rightarrow> modbusHandler option" where
  "get_FC1 modH = get_FC1_loop 0 modH"

partial_function (option) get_FC3_loop :: "u8 \<Rightarrow> u8 \<Rightarrow> modbusHandler \<Rightarrow> modbusHandler option" where
  "get_FC3_loop u8byte i modH =
     (if i < u8Buffer modH 2 div 2
      then (case bank_write (u16regsHR modH) (unat i)
                   (word (u8Buffer modH (unat u8byte)) (u8Buffer modH (unat u8byte + 1))) of
              None \<Rightarrow> None
            | Some regs \<Rightarrow> get_FC3_loop (u8byte + 2) (i + 1) (modH\<lparr>u16regsHR := regs\<rparr>))
      else Some modH)"

definition get_FC3 :: "modbusHandler \<Rightarrow> modbusHandler option" where
  "get_FC3 modH = get_FC3_loop 3 0 modH"

text \<open>
  \<open>StartTaskModbusMaster_wake\<close> is the part of the loop of \<^verbatim>\<open>StartTaskModbusMaster\<close> that
  follows the wait for a notification: \<open>telegram\<close> is the telegram that \<^verbatim>\<open>SendQuery\<close>
  sent before the wait, \<open>ulNotificationValue\<close> the value the task was notified with.
  \<^verbatim>\<open>SendQuery\<close> has stored the caller's array \<^verbatim>\<open>telegram.u16reg\<close> in the handler's
  \<open>u16regsCoils\<close> or \<open>u16regsHR\<close>, so these fields are the caller's buffer here.
\<close>

definition StartTaskModbusMaster_switch :: "modbusHandler \<Rightarrow> modbusHandler option" where
  "StartTaskModbusMaster_switch modH =
     (let f = u8Buffer modH FUNC
      in if f = MB_FC_READ_COILS \<or> f = MB_FC_READ_DISCRETE_INPUT then get_FC1 modH
         else if f = MB_FC_READ_INPUT_REGISTER \<or> f = MB_FC_READ_REGISTERS then get_FC3 modH
         else Some modH)"

text \<open>The handling of the answer that \<^verbatim>\<open>getRxBuffer\<close> has left in \<open>u8Buffer\<close>.\<close>

definition StartTaskModbusMaster_answer ::
  "header \<Rightarrow> modbusHandler \<Rightarrow> modbus_t \<Rightarrow> modbusHandler option"
where
  "StartTaskModbusMaster_answer K modH telegram =
     (if u8BufferSize modH < 6
      then (let h = modH\<lparr>i8state := word_of_int (COM_IDLE K)\<rparr>;
                h = h\<lparr>i8lastError := word_of_int (ERR_BAD_SIZE K)\<rparr>;
                h = h\<lparr>u16errCnt := u16errCnt h + 1\<rparr>
            in Some (xTaskNotify (u32CurrentTask telegram) (scast (i8lastError h)) h))
      else (case validateAnswer K modH of
              (h, u8exception) \<Rightarrow>
                if u8exception \<noteq> 0
                then (let h = h\<lparr>i8state := word_of_int (COM_IDLE K)\<rparr>;
                          h = h\<lparr>i8lastError := u8exception\<rparr>
                      in Some (xTaskNotify (u32CurrentTask telegram) (scast (i8lastError h)) h))
                else (case StartTaskModbusMaster_switch (h\<lparr>i8lastError := u8exception\<rparr>) of
                        None \<Rightarrow> None
                      | Some h \<Rightarrow>
                          (let h = h\<lparr>i8state := word_of_int (COM_IDLE K)\<rparr>
                           in if i8lastError h = 0
                              then Some (xTaskNotify (u32CurrentTask telegram)
                                           (word_of_int (ERR_OK_QUERY K)) h)
                              else Some h))))"

definition StartTaskModbusMaster_wake ::
  "header \<Rightarrow> modbusHandler \<Rightarrow> modbus_t \<Rightarrow> u32 \<Rightarrow> modbusHandler option"
where
  "StartTaskModbusMaster_wake K modH telegram ulNotificationValue =
     (let h = modH\<lparr>i8lastError := 0\<rparr>
      in if ulNotificationValue \<noteq> 0
         then (let h = h\<lparr>i8state := word_of_int (COM_IDLE K)\<rparr>;
                   h = h\<lparr>i8lastError := word_of_int (ERR_TIME_OUT K)\<rparr>;
                   h = h\<lparr>u16errCnt := u16errCnt h + 1\<rparr>
               in Some (xTaskNotify (u32CurrentTask telegram) (scast (i8lastError h)) h))
         else (case getRxBuffer K h of
                 (h, i16result) \<Rightarrow> StartTaskModbusMaster_answer K h telegram))"

section \<open>Sample data\<close>

text \<open>
  A header, a slave and a master to run the functions on concrete frames. The slave has
  station id 0x11, the holding registers 0x000A, 0x0102, 0xFFFF, one register of coils
  and one of discrete inputs; \<open>rx\<close> are the bytes the receive interrupt has put into
  its ring buffer with \<open>RingAdd\<close>. The master's buffers for read results hold four
  registers.
\<close>

definition sample_header :: header where
  "sample_header =
     \<lparr>MAX_BUFFER = 256, ERR_NOT_MASTER = 10, ERR_POLLING = 11, ERR_BUFF_OVERFLOW = 12,
      ERR_BAD_CRC = 13, ERR_EXCEPTION = 14, ERR_BAD_SIZE = 15, ERR_TIME_OUT = 17,
      ERR_BAD_SLAVE_ID = 18, ERR_OK_QUERY = 20, COM_IDLE = 0, COM_WAITING = 1,
      DB_COILS = 1, DB_INPUT_COILS = 2, DB_HOLDING_REGISTER = 3, DB_INPUT_REGISTERS = 4\<rparr>"

definition empty_ring :: modbusRingBuffer where
  "empty_ring =
     \<lparr>uxBuffer = (\<lambda>i. 0), u8start = 0, u8end = 0, u8available = 0, overflow = False\<rparr>"

definition received :: "u8 list \<Rightarrow> modbusRingBuffer" where
  "received rx = foldl (RingAdd sample_header) empty_ring rx"

definition sample_slave :: "u8 list \<Rightarrow> modbusHandler" where
  "sample_slave rx =
     \<lparr>uModbusType = MB_SLAVE, xTypeHW = USART_HW, u8id = 0x11, i8lastError = 0, i8state = 0,
      u8Buffer = (\<lambda>i. 0), u8BufferSize = 0,
      u16regsHR = [0x000A, 0x0102, 0xFFFF], u16regsRO = [], u16regsCoils = [0x0005],
      discrete_inputs = [0x00F0], u16regHR_size = 3, u16regCoils_size = 1,
      u16InCnt = 0, u16OutCnt = 0, u16errCnt = 0,
      xBufferRX = received rx, sent = [], notified = []\<rparr>"

definition sample_master :: "u8 list \<Rightarrow> modbusHandler" where
  "sample_master rx =
     \<lparr>uModbusType = MB_MASTER, xTypeHW = USART_HW, u8id = 0, i8lastError = 0, i8state = 1,
      u8Buffer = (\<lambda>i. 0), u8BufferSize = 0,
      u16regsHR = [0, 0, 0, 0], u16regsRO = [], u16regsCoils = [0, 0, 0, 0],
      discrete_inputs = [], u16regHR_size = 4, u16regCoils_size = 4,
      u16InCnt = 0, u16OutCnt = 1, u16errCnt = 0,
      xBufferRX = received rx, sent = [], notified = []\<rparr>"

definition sample_telegram :: modbus_t where
  "sample_telegram =
     \<lparr>tg_u8id = 0x22, tg_u8fct = 3, tg_u16RegAdd = 0, tg_u16CoilsNo = 1,
      tg_u16reg = [0, 0, 0, 0], u32CurrentTask = 7\<rparr>"

section \<open>Auxiliary functions for the proofs\<close>

text \<open>\<open>put_words f s ws\<close> is the array \<open>f\<close> after the words \<open>ws\<close> have been stored from
  index \<open>s\<close> on, high byte first.\<close>

text \<open>The handler as \<^verbatim>\<open>getRxBuffer\<close> leaves it when the slave task, respectively the
  master task, has been woken up: \<open>u8Buffer\<close> and \<open>u8BufferSize\<close> hold the received frame.\<close>

definition slave_received :: "header \<Rightarrow> modbusHandler \<Rightarrow> modbusHandler" where
  "slave_received K modH = fst (getRxBuffer K modH)"





primrec put_words :: "(nat \<Rightarrow> u8) \<Rightarrow> nat \<Rightarrow> u16 list \<Rightarrow> nat \<Rightarrow> u8" where
  "put_words f s [] = f"
| "put_words f s (w # ws) = put_words (f(s := highByte w, Suc s := lowByte w)) (Suc (Suc s)) ws"

section \<open>Termination of the byte-counted loops\<close>

lemma unat_succ_lt:
  fixes i n :: "'a::len word"
  assumes "i < n"
  shows "unat (i + 1) = Suc (unat i)"
proof -
  have "unat i < unat n" using assms by (simp add: word_less_nat_alt)
  moreover have "unat n < 2 ^ LENGTH('a)" by (rule unsigned_less)
  ultimately have "unat i + 1 < 2 ^ LENGTH('a)" by linarith
  then show ?thesis by (simp add: unat_word_ariths)
qed

termination calcCRC_bits
proof (relation "measure (\<lambda>(j, temp). 9 - unat j)")
  show "wf (measure (\<lambda>(j, temp). 9 - unat j))" by simp
next
  fix j :: u8 and temp x xa xb :: u32
  assume "j \<le> 8"
  then have lt: "j < 9" by (simp add: word_le_nat_alt word_less_nat_alt)
  then have "unat (j + 1) = Suc (unat j)" by (rule unat_succ_lt)
  moreover have "unat j < 9" using lt by (simp add: word_less_nat_alt)
  ultimately show "((j + 1, xb), j, temp) \<in> measure (\<lambda>(j, temp). 9 - unat j)" by simp
qed

declare calcCRC_bits.simps [simp del]

termination calcCRC_bytes
proof (relation "measure (\<lambda>(Buffer, u8length, i, temp). unat u8length - unat i)")
  show "wf (measure (\<lambda>(Buffer, u8length, i, temp). unat u8length - unat i))" by simp
next
  fix Buffer :: "nat \<Rightarrow> u8" and u8length i :: u8 and temp :: u32
  assume lt: "i < u8length"
  then have "unat (i + 1) = Suc (unat i)" by (rule unat_succ_lt)
  moreover have "unat i < unat u8length" using lt by (simp add: word_less_nat_alt)
  ultimately show "((Buffer, u8length, i + 1, calcCRC_bits 1 (temp XOR ucast (Buffer (unat i)))),
                    Buffer, u8length, i, temp)
        \<in> measure (\<lambda>(Buffer, u8length, i, temp). unat u8length - unat i)" by simp
qed

declare calcCRC_bytes.simps [simp del]

termination RingGetNBytes_loop
proof (relation "measure (\<lambda>(K, uNumber, uCounter, rb, buffer). unat uNumber - unat uCounter)")
  show "wf (measure (\<lambda>(K, uNumber, uCounter, rb, buffer). unat uNumber - unat uCounter))"
    by simp
next
  fix K :: header and uNumber uCounter :: u8 and rb :: modbusRingBuffer and buffer :: "nat \<Rightarrow> u8"
  assume "uCounter < uNumber \<and> uCounter < u8available rb"
  then have lt: "uCounter < uNumber" by simp
  then have "unat (uCounter + 1) = Suc (unat uCounter)" by (rule unat_succ_lt)
  moreover have "unat uCounter < unat uNumber" using lt by (simp add: word_less_nat_alt)
  ultimately show "((K, uNumber, uCounter + 1,
        rb\<lparr>u8start := of_nat ((unat (u8start rb) + 1) mod MAX_BUFFER K)\<rparr>,
        buffer(unat uCounter := uxBuffer rb (unat (u8start rb)))),
       K, uNumber, uCounter, rb, buffer)
      \<in> measure (\<lambda>(K, uNumber, uCounter, rb, buffer). unat uNumber - unat uCounter)"
    by simp
qed

declare RingGetNBytes_loop.simps [simp del]

declare process_FC1_loop.simps [code]
declare process_FC3_loop.simps [code]
declare process_FC15_loop.simps [code]
declare process_FC16_loop.simps [code]
declare get_FC1_loop.simps [code]
declare get_FC3_loop.simps [code]

section \<open>The checksum is CRC-16/Modbus\<close>

text \<open>The 32-bit accumulator of \<^verbatim>\<open>calcCRC\<close> never leaves the 16-bit range: it is the
  zero-extension of the accumulator of the reference.\<close>

lemma ucast_crc16_shift:
  fixes c :: u16
  shows "(if (ucast c :: u32) AND 0x0001 \<noteq> 0 then drop_bit 1 (ucast c) XOR 0xA001
          else drop_bit 1 (ucast c))
         = (ucast (crc16_shift c) :: u32)"
proof -
  have "((ucast c :: u32) AND 1 \<noteq> 0) = bit (ucast c :: u32) 0"
    by (simp add: and_one_eq bit_0 mod_2_eq_odd)
  also have "\<dots> = bit c 0"
    by (simp add: bit_simps)
  finally have flag: "((ucast c :: u32) AND 1 \<noteq> 0) = bit c 0" .
  have poly: "(0xA001 :: u32) = ucast (0xA001 :: u16)" by simp
  have shift: "drop_bit 1 (ucast c :: u32) = ucast (drop_bit 1 c)"
    by (rule bit_word_eqI) (auto simp add: bit_simps dest: bit_imp_le_length)
  show ?thesis
    unfolding crc16_shift_def flag poly shift
    by (simp add: unsigned_xor_eq del: of_nat_numeral)
qed

lemma calcCRC_bits_unfold:
  fixes c :: u16
  assumes "j \<le> 8"
  shows "calcCRC_bits j (ucast c) = calcCRC_bits (j + 1) (ucast (crc16_shift c))"
  by (subst calcCRC_bits.simps) (simp only: assms if_True Let_def ucast_crc16_shift)

lemma calcCRC_bits_9: "calcCRC_bits 9 t = t"
  by (subst calcCRC_bits.simps) simp

lemma calcCRC_bits_funpow:
  fixes c :: u16
  shows "9 - unat j = k \<Longrightarrow> j \<le> 9 \<Longrightarrow>
         calcCRC_bits j (ucast c) = ucast ((crc16_shift ^^ k) c)"
proof (induction k arbitrary: j c)
  case 0
  then have "unat j = 9" by (simp add: word_le_nat_alt)
  then have "of_nat (unat j) = (of_nat 9 :: u8)" by simp
  then have "j = 9" by simp
  then show ?case by (simp add: calcCRC_bits_9)
next
  case (Suc k)
  then have lt: "j < 9" by (simp add: word_less_nat_alt)
  then have suc: "unat (j + 1) = Suc (unat j)" by (rule unat_succ_lt)
  have le8: "j \<le> 8" using lt by (simp add: word_less_nat_alt word_le_nat_alt)
  have le9: "j + 1 \<le> 9" using lt suc by (simp add: word_less_nat_alt word_le_nat_alt)
  have k: "9 - unat (j + 1) = k" using Suc.prems suc by simp
  show ?case
    using Suc.IH [OF k le9, of "crc16_shift c"]
    by (simp add: calcCRC_bits_unfold [OF le8] funpow_swap1)
qed

lemma calcCRC_bits_1:
  fixes c :: u16
  shows "calcCRC_bits 1 (ucast c) = ucast ((crc16_shift ^^ 8) c)"
  by (rule calcCRC_bits_funpow) simp_all

lemma ucast_xor_byte:
  fixes c :: u16 and b :: u8
  shows "(ucast c :: u32) XOR ucast b = ucast (c XOR ucast b)"
  by (rule bit_word_eqI) (auto simp add: bit_simps dest: bit_imp_le_length)

lemma calcCRC_bytes_crc16:
  fixes c :: u16
  shows "unat u8length - unat i = k \<Longrightarrow> i \<le> u8length \<Longrightarrow>
     calcCRC_bytes Buffer u8length i (ucast c)
       = ucast (foldl crc16_update c (map Buffer [unat i..<unat u8length]))"
proof (induction k arbitrary: i c)
  case 0
  then have "\<not> i < u8length" by (simp add: word_less_nat_alt word_le_nat_alt)
  moreover have "unat i = unat u8length" using 0 by (simp add: word_le_nat_alt)
  ultimately show ?case by (subst calcCRC_bytes.simps) simp
next
  case (Suc k)
  then have lt: "i < u8length" by (simp add: word_less_nat_alt)
  then have suc: "unat (i + 1) = Suc (unat i)" by (rule unat_succ_lt)
  have le: "i + 1 \<le> u8length" using lt suc by (simp add: word_less_nat_alt word_le_nat_alt)
  have k: "unat u8length - unat (i + 1) = k" using Suc.prems suc by simp
  have nat_lt: "unat i < unat u8length" using lt by (simp add: word_less_nat_alt)
  have "calcCRC_bytes Buffer u8length i (ucast c)
        = calcCRC_bytes Buffer u8length (i + 1) (ucast (crc16_update c (Buffer (unat i))))"
    using lt by (subst calcCRC_bytes.simps) (simp add: ucast_xor_byte calcCRC_bits_1 crc16_update_def)
  also have "\<dots> = ucast (foldl crc16_update (crc16_update c (Buffer (unat i)))
                     (map Buffer [unat (i + 1)..<unat u8length]))"
    by (rule Suc.IH [OF k le])
  also have "\<dots> = ucast (foldl crc16_update c (map Buffer [unat i..<unat u8length]))"
    using nat_lt by (simp add: suc upt_conv_Cons)
  finally show ?case .
qed

lemma ucast_swap_bytes:
  fixes r :: u16
  shows "(ucast ((push_bit 8 (ucast r :: u32) OR drop_bit 8 (ucast r)) AND 0xFFFF) :: u16)
         = swap_bytes r"
proof -
  have m: "(0xFFFF :: u32) = mask 16" by (simp add: mask_eq_exp_minus_1)
  show ?thesis
    unfolding swap_bytes_def m
    by (rule bit_word_eqI) (auto simp add: bit_simps)
qed

lemma calcCRC_crc16:
  "calcCRC Buffer u8length = swap_bytes (crc16_modbus (map Buffer [0..<unat u8length]))"
proof -
  have "(0xFFFF :: u32) = ucast (0xFFFF :: u16)" by simp
  then have "calcCRC_bytes Buffer u8length 0 0xFFFF
      = ucast (foldl crc16_update 0xFFFF (map Buffer [unat (0::u8)..<unat u8length]))"
    using calcCRC_bytes_crc16 [of u8length 0 "unat u8length" Buffer "0xFFFF"] by simp
  then show ?thesis
    by (simp add: calcCRC_def Let_def crc16_modbus_def ucast_swap_bytes)
qed

lemma swap_bytes_high:
  "(ucast (drop_bit 8 (swap_bytes r)) :: u8) = lowByte r"
proof -
  have m: "(0xff :: u16) = mask 8" by (simp add: mask_eq_exp_minus_1)
  show ?thesis
    unfolding swap_bytes_def lowByte_def m
    by (rule bit_word_eqI) (auto simp add: bit_simps)
qed

lemma swap_bytes_low:
  "(ucast (swap_bytes r AND 0x00ff) :: u8) = highByte r"
proof -
  have m: "(0xff :: u16) = mask 8" by (simp add: mask_eq_exp_minus_1)
  show ?thesis
    unfolding swap_bytes_def highByte_def m
    by (rule bit_word_eqI) (auto simp add: bit_simps)
qed

lemma swap_bytes_twice: "swap_bytes (swap_bytes r) = r"
  unfolding swap_bytes_def
  by (rule bit_word_eqI) (auto simp add: bit_simps)

lemma map_frame_of: "map (frame_of bs) [0..<length bs] = bs"
  by (rule nth_equalityI) (simp_all add: frame_of_def)

lemma crc16_modbus_calcCRC:
  assumes "length bs < 256"
  shows "crc16_modbus bs = swap_bytes (calcCRC (frame_of bs) (of_nat (length bs)))"
proof -
  have "unat (of_nat (length bs) :: u8) = length bs"
    using assms by (simp add: unat_of_nat)
  then show ?thesis
    by (simp add: calcCRC_crc16 map_frame_of swap_bytes_twice)
qed

text \<open>The reference reproduces the check value that the CRC catalogue lists for
  CRC-16/MODBUS: the checksum of the ASCII string \<open>123456789\<close> is 0x4B37.\<close>

lemma calcCRC_check:
  "calcCRC (frame_of [0x31, 0x32, 0x33, 0x34, 0x35, 0x36, 0x37, 0x38, 0x39]) 9 = 0x374B"
  by code_simp

lemma crc16_modbus_check:
  "crc16_modbus [0x31, 0x32, 0x33, 0x34, 0x35, 0x36, 0x37, 0x38, 0x39] = 0x4B37"
  using crc16_modbus_calcCRC [of "[0x31, 0x32, 0x33, 0x34, 0x35, 0x36, 0x37, 0x38, 0x39]"]
  by (simp add: calcCRC_check swap_bytes_def)

lemma calcCRC_vector: "calcCRC (frame_of [0x01, 0x04, 0x02, 0xFF, 0xFF]) 5 = 0xB880"
  by code_simp

lemma crc16_modbus_vector: "crc16_modbus [0x01, 0x04, 0x02, 0xFF, 0xFF] = 0x80B8"
  using crc16_modbus_calcCRC [of "[0x01, 0x04, 0x02, 0xFF, 0xFF]"]
  by (simp add: calcCRC_vector swap_bytes_def)

section \<open>The send path\<close>

text \<open>As long as the frame has at most 253 bytes, the byte counter does not wrap and
  \<^verbatim>\<open>sendTxBuffer\<close> transmits the frame followed by the low and the high byte of its
  CRC.\<close>

lemma unat_succ_small:
  fixes x :: "'a::len word"
  assumes "Suc (unat x) < 2 ^ LENGTH('a)"
  shows "unat (x + 1) = Suc (unat x)"
  using assms by (simp add: unat_word_ariths)

lemma sendTxBuffer_eq:
  assumes "unat (u8BufferSize h) \<le> 253"
  shows "sendTxBuffer h
     = h\<lparr>u8Buffer := (u8Buffer h)
            (unat (u8BufferSize h)
               := lowByte (crc16_modbus (map (u8Buffer h) [0..<unat (u8BufferSize h)])),
             Suc (unat (u8BufferSize h))
               := highByte (crc16_modbus (map (u8Buffer h) [0..<unat (u8BufferSize h)]))),
          u8BufferSize := 0,
          sent := sent h @ [map (u8Buffer h) [0..<unat (u8BufferSize h)]
             @ [lowByte (crc16_modbus (map (u8Buffer h) [0..<unat (u8BufferSize h)])),
                highByte (crc16_modbus (map (u8Buffer h) [0..<unat (u8BufferSize h)]))]],
          u16OutCnt := u16OutCnt h + 1\<rparr>"
proof -
  let ?n = "unat (u8BufferSize h)"
  have n1: "unat (u8BufferSize h + 1) = Suc ?n"
    using assms by (intro unat_succ_small) simp
  have n2: "unat (2 + u8BufferSize h) = Suc (Suc ?n)"
    using assms by (simp add: unat_word_ariths)
  have m: "\<And>f a b. map (f(?n := a, Suc ?n := b)) [0..<?n] = map f [0..<?n]"
    by simp
  show ?thesis
    unfolding sendTxBuffer_def Let_def
    by (simp add: n1 n2 m calcCRC_crc16 swap_bytes_high swap_bytes_low)
qed

lemma sendTxBuffer_vector:
  "sent (sendTxBuffer (modH\<lparr>u8Buffer := frame_of [0x01, 0x04, 0x02, 0xFF, 0xFF], u8BufferSize := 5\<rparr>))
     = sent modH @ [[0x01, 0x04, 0x02, 0xFF, 0xFF, 0xB8, 0x80]]"
  by (simp add: sendTxBuffer_def Let_def calcCRC_vector upt_rec [of _ "numeral n" for n] frame_of_def)

lemma exception_sent:
  "sent (sendTxBuffer (buildException e h))
   = sent h @ [[u8id h, u8Buffer h FUNC + 0x80, e,
                lowByte (crc16_modbus [u8id h, u8Buffer h FUNC + 0x80, e]),
                highByte (crc16_modbus [u8id h, u8Buffer h FUNC + 0x80, e])]]"
proof -
  have size: "unat (u8BufferSize (buildException e h)) = 3"
    by (simp add: buildException_def Let_def EXCEPTION_SIZE_def)
  have bytes: "map (u8Buffer (buildException e h)) [0..<3] = [u8id h, u8Buffer h FUNC + 0x80, e]"
    by (simp add: buildException_def Let_def ID_def FUNC_def upt_rec [of _ "numeral n" for n])
  have "sent (buildException e h) = sent h"
    by (simp add: buildException_def Let_def)
  then show ?thesis
    by (subst sendTxBuffer_eq) (simp_all add: size bytes)
qed

lemma add_0x80_or:
  fixes f :: u8
  assumes "f AND 0x80 = 0"
  shows "f + 0x80 = f OR 0x80"
  using assms by (rule disjunctive_add_eq_or)

section \<open>The validators and the receive step\<close>

lemma validateRequest_range_cases:
  "validateRequest_range modH = 0 \<or> validateRequest_range modH = EXC_ADDR_RANGE
   \<or> validateRequest_range modH = EXC_REGS_QUANT"
  by (simp add: validateRequest_range_def Let_def)

lemma validateRequest_crc_ok:
  assumes "calcCRC (u8Buffer modH) (u8BufferSize modH - 2) = u16MsgCRC modH"
  shows "validateRequest K modH
         = (if \<not> isSupported modH then (modH\<lparr>u16errCnt := u16errCnt modH + 1\<rparr>, EXC_FUNC_CODE)
            else (modH, validateRequest_range modH))"
  using assms by (simp add: validateRequest_def)

lemma getRxBuffer_keeps:
  "sent (fst (getRxBuffer K modH)) = sent modH"
  "notified (fst (getRxBuffer K modH)) = notified modH"
  "u16regsHR (fst (getRxBuffer K modH)) = u16regsHR modH"
  "u16regsRO (fst (getRxBuffer K modH)) = u16regsRO modH"
  "u16regsCoils (fst (getRxBuffer K modH)) = u16regsCoils modH"
  "discrete_inputs (fst (getRxBuffer K modH)) = discrete_inputs modH"
  "u16errCnt (fst (getRxBuffer K modH)) = u16errCnt modH"
  "i8lastError (fst (getRxBuffer K modH)) = i8lastError modH"
  "i8state (fst (getRxBuffer K modH)) = i8state modH"
  "u16OutCnt (fst (getRxBuffer K modH)) = u16OutCnt modH"
  "u8id (fst (getRxBuffer K modH)) = u8id modH"
  by (simp_all add: getRxBuffer_def Let_def split: prod.split)

lemma StartTaskModbusSlave_wake_frame:
  assumes "xTypeHW modH = USART_HW \<or> xTypeHW modH = USART_HW_DMA"
      and "sint (snd (getRxBuffer K modH)) \<noteq> ERR_BUFF_OVERFLOW K"
  shows "StartTaskModbusSlave_wake K modH = StartTaskModbusSlave_frame K (slave_received K modH)"
  using assms
  by (cases "getRxBuffer K modH")
     (auto simp add: StartTaskModbusSlave_wake_def slave_received_def Let_def)

section \<open>Error codes as notification values\<close>

lemma scast_small_code:
  assumes "- 128 \<le> t" "t < 128"
  shows "(scast (word_of_int t :: u8) :: u32) = word_of_int t"
proof -
  have "signed_take_bit 7 t = t"
    using assms by (simp add: signed_take_bit_int_eq_self)
  then show ?thesis by (simp add: signed_of_int)
qed

lemma small_code_nonzero:
  assumes "t \<noteq> 0" "- 128 \<le> t" "t < 128"
  shows "(word_of_int t :: u32) \<noteq> 0"
proof
  assume "(word_of_int t :: u32) = 0"
  then have "(2 :: int) ^ 32 dvd t" by (simp add: word_of_int_eq_0_iff)
  with assms(1) have "\<bar>(2 :: int) ^ 32\<bar> \<le> \<bar>t\<bar>" by (rule dvd_imp_le_int)
  then show False using assms by simp
qed

section \<open>The loops over registers\<close>

lemma word_highByte_lowByte: "word (highByte w) (lowByte w) = w"
proof -
  have m: "(0xff :: u16) = mask 8" by (simp add: mask_eq_exp_minus_1)
  show ?thesis
    unfolding word_def highByte_def lowByte_def m
    by (rule bit_word_eqI) (auto simp add: bit_simps)
qed

lemma put_words_below: "j < s \<Longrightarrow> put_words f s ws j = f j"
  by (induction ws arbitrary: f s) simp_all

lemma put_words_high:
  "k < length ws \<Longrightarrow> put_words f s ws (s + 2 * k) = highByte (ws ! k)"
proof (induction ws arbitrary: f s k)
  case Nil
  then show ?case by simp
next
  case (Cons w ws)
  show ?case
  proof (cases k)
    case 0
    then show ?thesis by (simp add: put_words_below)
  next
    case (Suc k')
    then have "k' < length ws" using Cons.prems by simp
    from Cons.IH [OF this, of _ "Suc (Suc s)"] show ?thesis using Suc by simp
  qed
qed

lemma put_words_low:
  "k < length ws \<Longrightarrow> put_words f s ws (Suc (s + 2 * k)) = lowByte (ws ! k)"
proof (induction ws arbitrary: f s k)
  case Nil
  then show ?case by simp
next
  case (Cons w ws)
  show ?case
  proof (cases k)
    case 0
    then show ?thesis by (simp add: put_words_below)
  next
    case (Suc k')
    then have "k' < length ws" using Cons.prems by simp
    from Cons.IH [OF this, of _ "Suc (Suc s)"] show ?thesis using Suc by simp
  qed
qed

lemma process_FC3_step_eq:
  assumes "unat (u8BufferSize h) + 2 \<le> 255"
  shows "process_FC3_step r h
         = h\<lparr>u8Buffer := (u8Buffer h)(unat (u8BufferSize h) := highByte r,
                                        Suc (unat (u8BufferSize h)) := lowByte r),
              u8BufferSize := u8BufferSize h + 2\<rparr>"
proof -
  have "unat (u8BufferSize h + 1) = Suc (unat (u8BufferSize h))"
    using assms by (intro unat_succ_small) simp
  then show ?thesis
    by (simp add: process_FC3_step_def Let_def)
qed

lemma process_FC3_loop_result:
  "bound - unat i = k \<Longrightarrow> unat i \<le> bound \<Longrightarrow> bound \<le> length rs \<Longrightarrow> bound \<le> 65535 \<Longrightarrow>
   unat (u8BufferSize h) + 2 * k \<le> 255 \<Longrightarrow>
   process_FC3_loop (Some rs) bound i h
     = Some (h\<lparr>u8Buffer := put_words (u8Buffer h) (unat (u8BufferSize h))
                                (map ((!) rs) [unat i..<bound]),
                 u8BufferSize := u8BufferSize h + of_nat (2 * k)\<rparr>)"
proof (induction k arbitrary: i h)
  case 0
  then show ?case
    by (subst process_FC3_loop.simps) simp
next
  case (Suc k)
  let ?s = "unat (u8BufferSize h)"
  let ?h' = "process_FC3_step (rs ! unat i) h"
  have lt: "unat i < bound" using Suc.prems by simp
  then have suc: "unat (i + 1) = Suc (unat i)"
    using Suc.prems by (intro unat_succ_small) simp
  have step: "?h' = h\<lparr>u8Buffer := (u8Buffer h)(?s := highByte (rs ! unat i),
                                               Suc ?s := lowByte (rs ! unat i)),
                       u8BufferSize := u8BufferSize h + 2\<rparr>"
    using Suc.prems by (intro process_FC3_step_eq) simp
  have size': "unat (u8BufferSize ?h') = Suc (Suc ?s)"
    using Suc.prems by (simp add: step unat_word_ariths)
  have ih: "process_FC3_loop (Some rs) bound (i + 1) ?h'
     = Some (?h'\<lparr>u8Buffer := put_words (u8Buffer ?h') (unat (u8BufferSize ?h'))
                                (map ((!) rs) [unat (i + 1)..<bound]),
                 u8BufferSize := u8BufferSize ?h' + of_nat (2 * k)\<rparr>)"
    using Suc.prems lt suc size' by (intro Suc.IH) simp_all
  have "process_FC3_loop (Some rs) bound i h = process_FC3_loop (Some rs) bound (i + 1) ?h'"
    using lt Suc.prems by (subst process_FC3_loop.simps) (simp add: bank_read_def)
  also note ih
  finally show ?case
    using lt size' by (simp add: suc step upt_conv_Cons add.assoc)
qed

lemma unat_half_byte: "unat ((x :: u8) div 2) \<le> 127"
proof -
  have "unat x < 256" using unsigned_less [of x] by simp
  then show ?thesis by (simp add: unat_div)
qed

lemma get_FC3_loop_result:
  "n = unat (u8Buffer h 2 div 2) \<Longrightarrow> n - unat i = k \<Longrightarrow> unat i \<le> n \<Longrightarrow>
   n \<le> length (u16regsHR h) \<Longrightarrow> u8byte = of_nat (3 + 2 * unat i) \<Longrightarrow>
   get_FC3_loop u8byte i h
     = Some (h\<lparr>u16regsHR := take (unat i) (u16regsHR h)
                  @ map (\<lambda>j. word (u8Buffer h (3 + 2 * j)) (u8Buffer h (4 + 2 * j))) [unat i..<n]
                  @ drop n (u16regsHR h)\<rparr>)"
proof (induction k arbitrary: i h u8byte)
  case 0
  then have eq: "unat i = unat (u8Buffer h 2 div 2)" by simp
  then have "\<not> i < u8Buffer h 2 div 2" by (simp add: word_less_nat_alt)
  then show ?case using 0
    by (subst get_FC3_loop.simps) simp
next
  case (Suc k)
  let ?w = "word (u8Buffer h (3 + 2 * unat i)) (u8Buffer h (4 + 2 * unat i))"
  let ?h' = "h\<lparr>u16regsHR := (u16regsHR h)[unat i := ?w]\<rparr>"
  have n127: "n \<le> 127" using Suc.prems(1) unat_half_byte by simp
  have lt: "unat i < n" using Suc.prems by simp
  then have wlt: "i < u8Buffer h 2 div 2" using Suc.prems(1) by (simp add: word_less_nat_alt)
  have suc: "unat (i + 1) = Suc (unat i)" using wlt by (rule unat_succ_lt)
  have "unat u8byte = (3 + 2 * unat i) mod 2 ^ LENGTH(8)"
    unfolding Suc.prems(5) by (rule unat_of_nat)
  then have byte: "unat u8byte = 3 + 2 * unat i"
    using lt n127 by simp
  have byte': "u8byte + 2 = of_nat (3 + 2 * unat (i + 1))"
    using Suc.prems(5) suc by simp
  have ih: "get_FC3_loop (u8byte + 2) (i + 1) ?h'
     = Some (?h'\<lparr>u16regsHR := take (unat (i + 1)) (u16regsHR ?h')
                  @ map (\<lambda>j. word (u8Buffer ?h' (3 + 2 * j)) (u8Buffer ?h' (4 + 2 * j)))
                      [unat (i + 1)..<n]
                  @ drop n (u16regsHR ?h')\<rparr>)"
    using Suc.prems lt suc byte' by (intro Suc.IH) simp_all
  have "get_FC3_loop u8byte i h = get_FC3_loop (u8byte + 2) (i + 1) ?h'"
    using wlt lt Suc.prems(4) byte
    by (subst get_FC3_loop.simps) (simp add: bank_write_def)
  also note ih
  finally show ?case
    using lt Suc.prems(4)
    by (simp add: suc upt_conv_Cons take_Suc_conv_app_nth)
qed

lemma get_FC1_loop_result:
  "unat (u8Buffer h 2) - unat i = k \<Longrightarrow>
   (unat (u8Buffer h 2) + 1) div 2 \<le> length (u16regsCoils h) \<Longrightarrow>
   \<exists>cs. length cs = length (u16regsCoils h) \<and> get_FC1_loop i h = Some (h\<lparr>u16regsCoils := cs\<rparr>)"
proof (induction k arbitrary: i h)
  case 0
  then have "\<not> i < u8Buffer h 2" by (simp add: word_less_nat_alt)
  then have "get_FC1_loop i h = Some (h\<lparr>u16regsCoils := u16regsCoils h\<rparr>)"
    by (subst get_FC1_loop.simps) simp
  then show ?case by blast
next
  case (Suc k)
  have lt: "unat i < unat (u8Buffer h 2)" using Suc.prems by simp
  then have wlt: "i < u8Buffer h 2" by (simp add: word_less_nat_alt)
  have suc: "unat (i + 1) = Suc (unat i)" using wlt by (rule unat_succ_lt)
  have idx: "unat i div 2 < length (u16regsCoils h)" using lt Suc.prems(2) by linarith
  obtain v where step: "get_FC1_step i h = Some (h\<lparr>u16regsCoils := (u16regsCoils h)[unat i div 2 := v]\<rparr>)"
    using idx by (simp add: get_FC1_step_def Let_def bank_read_def)
  let ?h' = "h\<lparr>u16regsCoils := (u16regsCoils h)[unat i div 2 := v]\<rparr>"
  have "\<exists>cs. length cs = length (u16regsCoils ?h') \<and> get_FC1_loop (i + 1) ?h' = Some (?h'\<lparr>u16regsCoils := cs\<rparr>)"
    using Suc.prems suc by (intro Suc.IH) simp_all
  then obtain cs where cs: "length cs = length (u16regsCoils h)"
      "get_FC1_loop (i + 1) ?h' = Some (h\<lparr>u16regsCoils := cs\<rparr>)"
    by auto
  have "get_FC1_loop i h = get_FC1_loop (i + 1) ?h'"
    using wlt step by (subst get_FC1_loop.simps) simp
  then show ?case using cs by auto
qed

text \<open>The two parsers of the master in closed form: when the byte count of the answer
  stays within the caller's buffer, \<^verbatim>\<open>get_FC1\<close> and \<^verbatim>\<open>get_FC3\<close> return, and the buffer
  holds the unpacked payload.\<close>

lemma highByte_word: "highByte (word H L) = H"
  unfolding word_def highByte_def
  by (rule bit_word_eqI) (auto simp add: bit_simps dest: bit_imp_le_length)











lemma take_drop_nth: "s + q \<le> length rs \<Longrightarrow> take q (drop s rs) = map ((!) rs) [s..<s + q]"
  by (rule nth_equalityI) simp_all

lemma nth_append_frame:
  "k < n \<Longrightarrow> frame_of (map B [0..<n] @ cs) k = B k"
  by (simp add: frame_of_def nth_append)

lemma calcCRC_exception_sample: "calcCRC (frame_of [0x11, 0x87, 0x01]) 3 = 0x83F5"
  by code_simp

lemma crc16_modbus_exception_sample: "crc16_modbus [0x11, 0x87, 0x01] = 0xF583"
  using crc16_modbus_calcCRC [of "[0x11, 0x87, 0x01]"]
  by (simp add: calcCRC_exception_sample swap_bytes_def)

section \<open>The ring buffer under pushes and drains\<close>

text \<open>A push into a buffer that is not full adds one to the count and leaves the overflow
  flag clear; a push into a full buffer keeps the count and sets the flag. A drain that
  is not refused copies \<open>min uNumber u8available\<close> bytes, and then leaves the count at 0
  and the flag clear, whatever \<open>uNumber\<close> was.\<close>

lemma RingAdd_not_full:
  assumes "unat (u8available rb) \<noteq> MAX_BUFFER K"
  shows "RingCountBytes (RingAdd K rb v) = RingCountBytes rb + 1"
    and "overflow (RingAdd K rb v) = False"
  using assms by (simp_all add: RingAdd_def RingCountBytes_def Let_def)

lemma RingAdd_full:
  assumes "unat (u8available rb) = MAX_BUFFER K"
  shows "RingCountBytes (RingAdd K rb v) = RingCountBytes rb"
    and "overflow (RingAdd K rb v) = True"
  using assms by (simp_all add: RingAdd_def RingCountBytes_def Let_def)

lemma RingGetNBytes_loop_count:
  "uCounter \<le> uNumber \<Longrightarrow> uCounter \<le> u8available rb \<Longrightarrow>
   snd (snd (RingGetNBytes_loop K uNumber uCounter rb buffer)) = min uNumber (u8available rb)
   \<and> u8available (fst (RingGetNBytes_loop K uNumber uCounter rb buffer)) = u8available rb"
proof (induction K uNumber uCounter rb buffer rule: RingGetNBytes_loop.induct)
  case (1 K uNumber uCounter rb buffer)
  show ?case
  proof (cases "uCounter < uNumber \<and> uCounter < u8available rb")
    case True
    then have suc: "unat (uCounter + 1) = Suc (unat uCounter)"
      by (intro unat_succ_lt [of uCounter uNumber]) simp
    have le1: "uCounter + 1 \<le> uNumber"
      using True suc by (simp add: word_less_nat_alt word_le_nat_alt)
    have le2: "uCounter + 1 \<le> u8available rb"
      using True suc by (simp add: word_less_nat_alt word_le_nat_alt)
    let ?rb = "rb\<lparr>u8start := of_nat ((unat (u8start rb) + 1) mod MAX_BUFFER K)\<rparr>"
    let ?buf = "buffer(unat uCounter := uxBuffer rb (unat (u8start rb)))"
    have step: "RingGetNBytes_loop K uNumber uCounter rb buffer
                = RingGetNBytes_loop K uNumber (uCounter + 1) ?rb ?buf"
      using True by (subst RingGetNBytes_loop.simps) (simp only: if_True simp_thms)
    have le2': "uCounter + 1 \<le> u8available ?rb" using le2 by simp
    have "snd (snd (RingGetNBytes_loop K uNumber (uCounter + 1) ?rb ?buf))
            = min uNumber (u8available ?rb)
          \<and> u8available (fst (RingGetNBytes_loop K uNumber (uCounter + 1) ?rb ?buf))
            = u8available ?rb"
      using True le1 le2' by (rule "1.IH")
    then show ?thesis unfolding step by simp
  next
    case False
    then have eq: "uCounter = min uNumber (u8available rb)"
      using "1.prems" by (auto simp add: min_def)
    have stop: "RingGetNBytes_loop K uNumber uCounter rb buffer = (rb, buffer, uCounter)"
      using False by (subst RingGetNBytes_loop.simps) (simp only: if_False)
    show ?thesis unfolding stop using eq by simp
  qed
qed

lemma RingGetNBytes_drains:
  assumes "u8available rb \<noteq> 0" and "uNumber \<noteq> 0" and "unat uNumber \<le> MAX_BUFFER K"
  shows "snd (snd (RingGetNBytes K rb buffer uNumber)) = min uNumber (u8available rb)"
    and "RingCountBytes (fst (RingGetNBytes K rb buffer uNumber)) = 0"
    and "overflow (fst (RingGetNBytes K rb buffer uNumber)) = False"
proof -
  have "snd (snd (RingGetNBytes_loop K uNumber 0 rb buffer)) = min uNumber (u8available rb)"
    using RingGetNBytes_loop_count [of 0 uNumber rb K buffer] by simp
  then show "snd (snd (RingGetNBytes K rb buffer uNumber)) = min uNumber (u8available rb)"
    using assms
    by (cases "RingGetNBytes_loop K uNumber 0 rb buffer") (simp add: RingGetNBytes_def Let_def)
  show "RingCountBytes (fst (RingGetNBytes K rb buffer uNumber)) = 0"
    using assms by (simp add: RingGetNBytes_def RingCountBytes_def RingClear_def Let_def split: prod.split)
  show "overflow (fst (RingGetNBytes K rb buffer uNumber)) = False"
    using assms by (simp add: RingGetNBytes_def RingClear_def Let_def split: prod.split)
qed

section \<open>The exception answer of the slave\<close>

text \<open>
  The slave task wakes up in one of the two hardware modes, \<^verbatim>\<open>getRxBuffer\<close> does not
  report an overflow, and the received frame has at least seven bytes, the slave's id
  and a valid checksum, but fails the validation. Then the result of \<^verbatim>\<open>validateRequest\<close>
  is one of the exception codes 1, 2 and 3 and, unless that code is the number
  \<open>ERR_TIME_OUT\<close>, the slave builds an exception frame of internal length 3 and transmits
  five bytes: the id byte as received, the sum of the received function byte and 0x80 in
  eight bits, the exception code, and the CRC of these three bytes, low byte first. The
  sum is the function byte OR-ed with 0x80 when the received byte has bit 0x80 clear.
\<close>

lemma StartTaskModbusSlave_exception:
  assumes hw: "xTypeHW modH = USART_HW \<or> xTypeHW modH = USART_HW_DMA"
      and no_overflow: "sint (snd (getRxBuffer K modH)) \<noteq> ERR_BUFF_OVERFLOW K"
      and size: "7 \<le> u8BufferSize (slave_received K modH)"
      and id: "u8Buffer (slave_received K modH) ID = u8id modH"
      and crc: "calcCRC (u8Buffer (slave_received K modH)) (u8BufferSize (slave_received K modH) - 2)
                = u16MsgCRC (slave_received K modH)"
      and fail: "snd (validateRequest K (slave_received K modH)) \<noteq> 0"
      and nto: "uint (snd (validateRequest K (slave_received K modH))) \<noteq> ERR_TIME_OUT K"
  shows "\<exists>h. StartTaskModbusSlave_wake K modH = Some h
           \<and> sent h = sent modH @
                [[u8Buffer (slave_received K modH) ID,
                  u8Buffer (slave_received K modH) FUNC + 0x80,
                  snd (validateRequest K (slave_received K modH)),
                  lowByte (crc16_modbus [u8Buffer (slave_received K modH) ID,
                                          u8Buffer (slave_received K modH) FUNC + 0x80,
                                          snd (validateRequest K (slave_received K modH))]),
                  highByte (crc16_modbus [u8Buffer (slave_received K modH) ID,
                                           u8Buffer (slave_received K modH) FUNC + 0x80,
                                           snd (validateRequest K (slave_received K modH))])]]
           \<and> length (last (sent h)) = 5
           \<and> i8lastError h = snd (validateRequest K (slave_received K modH))
           \<and> u8BufferSize (buildException (snd (validateRequest K (slave_received K modH)))
                              (fst (validateRequest K (slave_received K modH)))) = 3
           \<and> (snd (validateRequest K (slave_received K modH)) = EXC_FUNC_CODE
                \<or> snd (validateRequest K (slave_received K modH)) = EXC_ADDR_RANGE
                \<or> snd (validateRequest K (slave_received K modH)) = EXC_REGS_QUANT)
           \<and> (u8Buffer (slave_received K modH) FUNC AND 0x80 = 0
                \<longrightarrow> u8Buffer (slave_received K modH) FUNC + 0x80
                    = u8Buffer (slave_received K modH) FUNC OR 0x80)"
proof -
  let ?R = "slave_received K modH"
  have rid: "u8id ?R = u8id modH" and rsent: "sent ?R = sent modH"
    by (simp_all add: slave_received_def getRxBuffer_keeps)
  obtain h1 e where v: "validateRequest K ?R = (h1, e)" by (cases "validateRequest K ?R")
  have e0: "e \<noteq> 0" and eto: "uint e \<noteq> ERR_TIME_OUT K" using fail nto v by simp_all
  have pos: "0 < e" using e0 by (simp add: word_neq_0_conv)
  have h1: "u8Buffer h1 = u8Buffer ?R" "u8id h1 = u8id ?R" "sent h1 = sent ?R"
    using v crc by (auto simp add: validateRequest_crc_ok split: if_splits)
  have codes: "e = EXC_FUNC_CODE \<or> e = EXC_ADDR_RANGE \<or> e = EXC_REGS_QUANT"
    using v crc e0 validateRequest_range_cases [of ?R]
    by (auto simp add: validateRequest_crc_ok split: if_splits)
  let ?h = "(sendTxBuffer (buildException e h1))\<lparr>i8lastError := e\<rparr>"
  have not_small: "\<not> u8BufferSize ?R < 7" using size by (simp add: not_less)
  have "StartTaskModbusSlave_frame K ?R = Some ?h"
    using not_small id rid v pos eto by (simp add: StartTaskModbusSlave_frame_def Let_def)
  then have wake: "StartTaskModbusSlave_wake K modH = Some ?h"
    using StartTaskModbusSlave_wake_frame [OF hw no_overflow] by simp
  have sent: "sent ?h = sent modH @
                [[u8Buffer ?R ID, u8Buffer ?R FUNC + 0x80, e,
                  lowByte (crc16_modbus [u8Buffer ?R ID, u8Buffer ?R FUNC + 0x80, e]),
                  highByte (crc16_modbus [u8Buffer ?R ID, u8Buffer ?R FUNC + 0x80, e])]]"
    by (simp add: exception_sent h1 id rid rsent)
  have len: "length (last (sent ?h)) = 5" by (simp only: sent last_snoc) simp
  have three: "u8BufferSize (buildException e h1) = 3"
    by (simp add: buildException_def Let_def EXCEPTION_SIZE_def)
  show ?thesis
    unfolding v fst_conv snd_conv
  proof (intro exI conjI)
    show "StartTaskModbusSlave_wake K modH = Some ?h" by (rule wake)
    show "sent ?h = sent modH @
                [[u8Buffer ?R ID, u8Buffer ?R FUNC + 0x80, e,
                  lowByte (crc16_modbus [u8Buffer ?R ID, u8Buffer ?R FUNC + 0x80, e]),
                  highByte (crc16_modbus [u8Buffer ?R ID, u8Buffer ?R FUNC + 0x80, e])]]"
      by (rule sent)
    show "length (last (sent ?h)) = 5" by (rule len)
    show "i8lastError ?h = e" by simp
    show "u8BufferSize (buildException e h1) = 3" by (rule three)
    show "e = EXC_FUNC_CODE \<or> e = EXC_ADDR_RANGE \<or> e = EXC_REGS_QUANT" by (rule codes)
    show "u8Buffer ?R FUNC AND 0x80 = 0 \<longrightarrow> u8Buffer ?R FUNC + 0x80 = u8Buffer ?R FUNC OR 0x80"
      by (simp add: add_0x80_or)
  qed
qed

text \<open>The request \<open>11 07 00 00 00\<close> with its checksum names an unsupported function; the
  slave with id 0x11 answers \<open>11 87 01 83 F5\<close>.\<close>

lemma StartTaskModbusSlave_exception_sample:
  "\<exists>h. StartTaskModbusSlave_wake sample_header
          (sample_slave [0x11, 0x07, 0x00, 0x00, 0x00, 0xD9, 0x77]) = Some h
       \<and> sent h = [[0x11, 0x87, 0x01, 0x83, 0xF5]]
       \<and> i8lastError h = 1"
proof -
  let ?S = "sample_slave [0x11, 0x07, 0x00, 0x00, 0x00, 0xD9, 0x77]"
  let ?R = "slave_received sample_header ?S"
  have hw: "xTypeHW ?S = USART_HW \<or> xTypeHW ?S = USART_HW_DMA"
    by (simp add: sample_slave_def)
  have no_overflow: "sint (snd (getRxBuffer sample_header ?S)) \<noteq> ERR_BUFF_OVERFLOW sample_header"
    by code_simp
  have size: "7 \<le> u8BufferSize ?R" by code_simp
  have id: "u8Buffer ?R ID = u8id ?S" by code_simp
  have crc: "calcCRC (u8Buffer ?R) (u8BufferSize ?R - 2) = u16MsgCRC ?R" by code_simp
  have e: "snd (validateRequest sample_header ?R) = 1" by code_simp
  have fail: "snd (validateRequest sample_header ?R) \<noteq> 0" unfolding e by simp
  have nto: "uint (snd (validateRequest sample_header ?R)) \<noteq> ERR_TIME_OUT sample_header"
    unfolding e by (simp add: sample_header_def)
  have b0: "u8Buffer ?R ID = 0x11" by code_simp
  have b1: "u8Buffer ?R FUNC + 0x80 = 0x87" by code_simp
  have s0: "sent ?S = []" by (simp add: sample_slave_def)
  from StartTaskModbusSlave_exception [OF hw no_overflow size id crc fail nto]
  obtain h where "StartTaskModbusSlave_wake sample_header ?S = Some h"
    and "sent h = sent ?S @
                [[u8Buffer ?R ID, u8Buffer ?R FUNC + 0x80, snd (validateRequest sample_header ?R),
                  lowByte (crc16_modbus [u8Buffer ?R ID, u8Buffer ?R FUNC + 0x80,
                                          snd (validateRequest sample_header ?R)]),
                  highByte (crc16_modbus [u8Buffer ?R ID, u8Buffer ?R FUNC + 0x80,
                                           snd (validateRequest sample_header ?R)])]]"
    and "i8lastError h = snd (validateRequest sample_header ?R)"
    by blast
  then have "StartTaskModbusSlave_wake sample_header ?S = Some h
       \<and> sent h = [[0x11, 0x87, 0x01, 0x83, 0xF5]] \<and> i8lastError h = 1"
    unfolding e b0 b1 s0 by (simp add: crc16_modbus_exception_sample lowByte_def highByte_def)
  then show ?thesis by blast
qed

section \<open>The claims\<close>

text \<open>
  C1. For every byte sequence, \<^verbatim>\<open>calcCRC\<close> returns the reference CRC-16/Modbus
  (polynomial 0xA001, initial value 0xFFFF, reflected) of the first \<open>u8length\<close> bytes of
  the buffer with its two bytes swapped. The send path emits the high byte of that
  result first, so the low byte of the CRC goes first on the wire and the high byte
  last. For the bytes 01 04 02 FF FF the CRC is 0x80B8, \<^verbatim>\<open>calcCRC\<close> returns 0xB880 and
  the frame goes out as 01 04 02 FF FF B8 80.
\<close>

theorem calcCRC_is_swapped_crc16_modbus:
  "calcCRC Buffer u8length = swap_bytes (crc16_modbus (map Buffer [0..<unat u8length]))
   \<and> (ucast (drop_bit 8 (calcCRC Buffer u8length)) :: u8)
       = lowByte (crc16_modbus (map Buffer [0..<unat u8length]))
   \<and> (ucast (calcCRC Buffer u8length AND 0x00ff) :: u8)
       = highByte (crc16_modbus (map Buffer [0..<unat u8length]))
   \<and> crc16_modbus [0x01, 0x04, 0x02, 0xFF, 0xFF] = 0x80B8
   \<and> calcCRC (frame_of [0x01, 0x04, 0x02, 0xFF, 0xFF]) 5 = 0xB880
   \<and> sent (sendTxBuffer (modH\<lparr>u8Buffer := frame_of [0x01, 0x04, 0x02, 0xFF, 0xFF],
                                u8BufferSize := 5\<rparr>))
       = sent modH @ [[0x01, 0x04, 0x02, 0xFF, 0xFF, 0xB8, 0x80]]"
proof (intro conjI)
  show "calcCRC Buffer u8length = swap_bytes (crc16_modbus (map Buffer [0..<unat u8length]))"
    by (rule calcCRC_crc16)
  show "(ucast (drop_bit 8 (calcCRC Buffer u8length)) :: u8)
       = lowByte (crc16_modbus (map Buffer [0..<unat u8length]))"
    by (simp only: calcCRC_crc16 swap_bytes_high)
  show "(ucast (calcCRC Buffer u8length AND 0x00ff) :: u8)
       = highByte (crc16_modbus (map Buffer [0..<unat u8length]))"
    by (simp only: calcCRC_crc16 swap_bytes_low)
  show "crc16_modbus [0x01, 0x04, 0x02, 0xFF, 0xFF] = 0x80B8"
    by (rule crc16_modbus_vector)
  show "calcCRC (frame_of [0x01, 0x04, 0x02, 0xFF, 0xFF]) 5 = 0xB880"
    by (rule calcCRC_vector)
  show "sent (sendTxBuffer (modH\<lparr>u8Buffer := frame_of [0x01, 0x04, 0x02, 0xFF, 0xFF],
                                u8BufferSize := 5\<rparr>))
       = sent modH @ [[0x01, 0x04, 0x02, 0xFF, 0xFF, 0xB8, 0x80]]"
    by (rule sendTxBuffer_vector)
qed

text \<open>
  C2 (not met by the code). The claim asks for ILLEGAL_DATA_ADDRESS whenever the address
  lies one past the bank: for function 6 when the start address equals the number of
  holding registers, for function 5 when the coil is the first one past the last coil
  register. \<^verbatim>\<open>validateRequest\<close> compares with \<open>>\<close> in both cases and returns 0, whatever
  the header's constants are. The slave has three holding registers and one register of
  coils (coils 0 to 15); the frames are \<open>11 06 00 03 00 01\<close> (write register 3) and
  \<open>11 05 00 10 FF 00\<close> (set coil 16), each with its checksum. The handler that runs
  next writes past the end of the bank, which has no defined result.
\<close>

theorem validateRequest_accepts_address_past_bank:
  "snd (validateRequest K ((sample_slave [])
          \<lparr>u8Buffer := frame_of [0x11, 0x06, 0x00, 0x03, 0x00, 0x01, 0xBA, 0x9A],
            u8BufferSize := 8\<rparr>)) = 0
   \<and> snd (validateRequest K ((sample_slave [])
          \<lparr>u8Buffer := frame_of [0x11, 0x05, 0x00, 0x10, 0xFF, 0x00, 0x8F, 0x6F],
            u8BufferSize := 8\<rparr>)) = 0
   \<and> StartTaskModbusSlave_wake sample_header
        (sample_slave [0x11, 0x06, 0x00, 0x03, 0x00, 0x01, 0xBA, 0x9A]) = None
   \<and> StartTaskModbusSlave_wake sample_header
        (sample_slave [0x11, 0x05, 0x00, 0x10, 0xFF, 0x00, 0x8F, 0x6F]) = None"
  by code_simp

text \<open>
  C3 (not met by the code). After three bytes have been pushed into a cleared ring buffer
  the count is 3. Draining one byte with \<^verbatim>\<open>RingGetNBytes\<close> returns 1 and copies the oldest
  byte, but leaves the count at 0 instead of 2: the function subtracts the number of
  bytes copied from \<open>u8available\<close> and then calls \<^verbatim>\<open>RingClear\<close>, which discards the rest.
\<close>

theorem RingGetNBytes_partial_drain_clears:
  "RingCountBytes (received [0x01, 0x02, 0x03]) = 3
   \<and> (case RingGetNBytes sample_header (received [0x01, 0x02, 0x03]) (\<lambda>i. 0) 1 of
         (rb, buffer, uCounter) \<Rightarrow> (uCounter, buffer 0, RingCountBytes rb)) = (1, 0x01, 0)"
  by code_simp

text \<open>
  C4 (not met by the code). The request \<open>11 03 00 00 00 04\<close> asks a slave with three
  holding registers for four. \<^verbatim>\<open>validateRequest\<close> returns ILLEGAL_DATA_ADDRESS (2), the
  slave answers with the exception frame \<open>11 83 02\<close> and writes 2 to \<open>i8lastError\<close>, but
  \<open>u16errCnt\<close> is still 0: the two range failures return without counting, unlike the
  checksum and function-code failures of the same function.
\<close>

theorem address_range_failure_keeps_err_count:
  "u16errCnt (sample_slave [0x11, 0x03, 0x00, 0x00, 0x00, 0x04, 0x46, 0x99]) = 0
   \<and> map_option (\<lambda>h. (sent h, i8lastError h, u16errCnt h))
        (StartTaskModbusSlave_wake sample_header
           (sample_slave [0x11, 0x03, 0x00, 0x00, 0x00, 0x04, 0x46, 0x99]))
      = Some ([[0x11, 0x83, 0x02, 0xC1, 0x34]], 2, 0)"
  by code_simp

text \<open>
  C5 (not met by the code). A slave with id 0x11 receives the seven bytes
  \<open>11 87 00 00 00 F0 B7\<close>: the frame carries the slave's id and a valid checksum, and
  \<^verbatim>\<open>validateRequest\<close> rejects its function byte 0x87 with \<open>EXC_FUNC_CODE\<close>, a failure
  other than a CRC or size error. The function byte OR-ed with 0x80 is 0x87;
  \<^verbatim>\<open>buildException\<close> adds 0x80 in eight bits instead, and the slave transmits
  \<open>11 07 01 E2 35\<close>, whose function byte 0x07 has the exception bit clear.
\<close>

theorem exception_frame_drops_exception_bit:
  "calcCRC (frame_of [0x11, 0x87, 0x00, 0x00, 0x00]) 5 = word 0xF0 0xB7
   \<and> snd (validateRequest sample_header
             (slave_received sample_header
                (sample_slave [0x11, 0x87, 0x00, 0x00, 0x00, 0xF0, 0xB7]))) = EXC_FUNC_CODE
   \<and> map_option sent
        (StartTaskModbusSlave_wake sample_header
           (sample_slave [0x11, 0x87, 0x00, 0x00, 0x00, 0xF0, 0xB7]))
      = Some [[0x11, 0x07, 0x01, 0xE2, 0x35]]
   \<and> (0x87 OR 0x80 :: u8) = 0x87
   \<and> (0x07 AND 0x80 :: u8) = 0"
  by code_simp

text \<open>
  C6. When the master task is notified with the value TIMEOUT (\<open>ERR_TIME_OUT\<close>, a nonzero
  code that fits the \<^verbatim>\<open>int8_t\<close> field \<open>i8lastError\<close>), it sets the state to \<open>COM_IDLE\<close>,
  records \<open>ERR_TIME_OUT\<close> in \<open>i8lastError\<close>, adds one to the 16-bit counter \<open>u16errCnt\<close> and
  notifies the originator of the telegram with \<open>ERR_TIME_OUT\<close>; nothing else changes.
  This holds in every state of the master, \<open>COM_WAITING\<close> included.
\<close>

theorem master_timeout:
  assumes "ERR_TIME_OUT K \<noteq> 0" and "- 128 \<le> ERR_TIME_OUT K" and "ERR_TIME_OUT K < 128"
  shows "StartTaskModbusMaster_wake K modH telegram (word_of_int (ERR_TIME_OUT K))
         = Some (modH\<lparr>i8lastError := word_of_int (ERR_TIME_OUT K),
                        i8state := word_of_int (COM_IDLE K),
                        u16errCnt := u16errCnt modH + 1,
                        notified := notified modH
                           @ [(u32CurrentTask telegram, word_of_int (ERR_TIME_OUT K))]\<rparr>)"
  using small_code_nonzero [OF assms] scast_small_code [OF assms(2,3)]
  by (simp add: StartTaskModbusMaster_wake_def Let_def xTaskNotify_def)

theorem master_timeout_witness:
  "map_option (\<lambda>h. (sint (i8state h), sint (i8lastError h), u16errCnt h, notified h))
     (StartTaskModbusMaster_wake sample_header (sample_master []) sample_telegram 17)
   = Some (0, 17, 1, [(7, 17)])"
  using master_timeout [of sample_header "sample_master []" sample_telegram]
  by (simp add: sample_header_def sample_master_def sample_telegram_def)

text \<open>
  C7. Let the request in the slave's frame buffer ask for \<open>qty\<close> registers from address
  \<open>start\<close>, with \<open>qty\<close> between 1 and 125, let the holding-register bank contain the
  \<open>start + qty\<close> registers (\<open>start + qty\<close> is at most the handler's 16-bit size field
  \<open>u16regHR_size\<close>, and the array has at least that many elements), and let \<open>Database\<close>
  select the holding registers. Then \<^verbatim>\<open>process_FC3\<close> returns and transmits one frame;
  and when that frame is the content of the master's frame buffer and the caller's
  buffer has room for \<open>qty\<close> registers, \<^verbatim>\<open>get_FC3\<close> returns, and the first \<open>qty\<close>
  registers of the caller's buffer are the registers \<open>start\<close>, ..., \<open>start + qty - 1\<close> of
  the slave's bank.
\<close>

theorem FC3_round_trip:
  assumes db: "uint Database = DB_HOLDING_REGISTER K"
      and qty1: "1 \<le> unat qty" and qty125: "unat qty \<le> 125"
      and req_add: "word (u8Buffer slave ADD_HI) (u8Buffer slave ADD_LO) = start"
      and req_nb: "word (u8Buffer slave NB_HI) (u8Buffer slave NB_LO) = qty"
      and bank: "unat start + unat qty \<le> unat (u16regHR_size slave)"
      and bank_size: "unat (u16regHR_size slave) \<le> length (u16regsHR slave)"
      and caller: "unat qty \<le> length (u16regsHR master)"
  shows "\<exists>slave' ret frame master'.
           process_FC3 K slave Database = Some (slave', ret)
         \<and> sent slave' = sent slave @ [frame]
         \<and> get_FC3 (master\<lparr>u8Buffer := frame_of frame\<rparr>) = Some master'
         \<and> take (unat qty) (u16regsHR master') = take (unat qty) (drop (unat start) (u16regsHR slave))"
proof -
  let ?q = "unat qty"
  let ?rs = "u16regsHR slave"
  let ?ws = "map ((!) ?rs) [unat start..<unat start + ?q]"
  let ?no = "ucast qty :: u8"
  let ?h0 = "slave\<lparr>u8Buffer := (u8Buffer slave)(2 := ?no * 2), u8BufferSize := 3\<rparr>"
  let ?B = "put_words ((u8Buffer slave)(2 := ?no * 2)) 3 ?ws"
  let ?h1 = "?h0\<lparr>u8Buffer := ?B, u8BufferSize := 3 + of_nat (2 * ?q)\<rparr>"
  have "unat ?no = take_bit LENGTH(8) ?q"
    by (rule unsigned_ucast_eq)
  then have no: "unat ?no = ?q"
    using qty125 by (simp add: take_bit_nat_eq_self)
  have no2: "unat (?no * 2) = 2 * ?q"
    using qty125 no by (simp add: unat_word_ariths)
  have "unat (u16regHR_size slave) < 2 ^ LENGTH(16)"
    by (rule unsigned_less)
  then have le16: "unat start + ?q \<le> 65535"
    using bank by simp
  have len: "unat start + ?q \<le> length ?rs"
    using bank bank_size by simp
  have loop: "process_FC3_loop (Some ?rs) (unat start + ?q) start ?h0 = Some ?h1"
    using process_FC3_loop_result [of "unat start + ?q" start ?q ?rs ?h0] len le16 qty125
    by simp
  have size1: "unat (u8BufferSize ?h1) = 3 + 2 * ?q"
    using qty125 no by (simp add: unat_word_ariths)
  let ?bs = "map ?B [0..<3 + 2 * ?q]"
  let ?frame = "?bs @ [lowByte (crc16_modbus ?bs), highByte (crc16_modbus ?bs)]"
  have send: "sent (sendTxBuffer ?h1) = sent slave @ [?frame]"
    using qty125 size1 by (subst sendTxBuffer_eq) simp_all
  have fc3: "process_FC3 K slave Database = Some (sendTxBuffer ?h1, u8BufferSize ?h1 + 2)"
    using db loop no by (simp add: process_FC3_def Let_def req_add req_nb)
  let ?m0 = "master\<lparr>u8Buffer := frame_of ?frame\<rparr>"
  have b2: "frame_of ?frame 2 = ?no * 2"
    using qty1 by (simp add: nth_append_frame put_words_below)
  have n: "unat (frame_of ?frame 2 div 2) = ?q"
    unfolding b2 by (simp add: unat_div no2)
  have hi: "\<And>j. j < ?q \<Longrightarrow> frame_of ?frame (3 + 2 * j) = highByte (?ws ! j)"
    using put_words_high [of _ ?ws _ 3] by (simp add: nth_append_frame)
  have lo: "\<And>j. j < ?q \<Longrightarrow> frame_of ?frame (4 + 2 * j) = lowByte (?ws ! j)"
    using put_words_low [of _ ?ws _ 3] by (simp add: nth_append_frame)
  have words: "map (\<lambda>j. word (frame_of ?frame (3 + 2 * j)) (frame_of ?frame (4 + 2 * j))) [0..<?q]
               = ?ws"
  proof (rule nth_equalityI)
    show "length (map (\<lambda>j. word (frame_of ?frame (3 + 2 * j)) (frame_of ?frame (4 + 2 * j))) [0..<?q])
          = length ?ws" by simp
  next
    fix j
    assume "j < length (map (\<lambda>j. word (frame_of ?frame (3 + 2 * j)) (frame_of ?frame (4 + 2 * j))) [0..<?q])"
    then have j: "j < ?q" by simp
    then show "map (\<lambda>j. word (frame_of ?frame (3 + 2 * j)) (frame_of ?frame (4 + 2 * j))) [0..<?q] ! j
               = ?ws ! j"
      by (simp only: nth_map_upt minus_nat.diff_0 add_0 hi [OF j] lo [OF j] word_highByte_lowByte)
  qed
  have get: "get_FC3 ?m0 = Some (?m0\<lparr>u16regsHR := ?ws @ drop ?q (u16regsHR master)\<rparr>)"
    unfolding get_FC3_def
    using get_FC3_loop_result [of ?q ?m0 0 ?q 3] n caller words
    by simp
  let ?m1 = "?m0\<lparr>u16regsHR := ?ws @ drop ?q (u16regsHR master)\<rparr>"
  have final: "take ?q (u16regsHR ?m1) = take ?q (drop (unat start) ?rs)"
    using len by (simp add: take_drop_nth)
  show ?thesis
  proof (intro exI conjI)
    show "process_FC3 K slave Database = Some (sendTxBuffer ?h1, u8BufferSize ?h1 + 2)"
      by (rule fc3)
    show "sent (sendTxBuffer ?h1) = sent slave @ [?frame]"
      by (rule send)
    show "get_FC3 (master\<lparr>u8Buffer := frame_of ?frame\<rparr>) = Some ?m1"
      by (rule get)
    show "take ?q (u16regsHR ?m1) = take ?q (drop (unat start) ?rs)"
      by (rule final)
  qed
qed

text \<open>The request \<open>11 03 00 00 00 03\<close> to the sample slave: the master reads back 0x000A,
  0x0102, 0xFFFF.\<close>

theorem FC3_round_trip_witness:
  "\<exists>slave' ret frame master'.
      process_FC3 sample_header
        ((sample_slave [])\<lparr>u8Buffer := frame_of [0x11, 0x03, 0x00, 0x00, 0x00, 0x03, 0x07, 0x5B],
                             u8BufferSize := 8\<rparr>) 3 = Some (slave', ret)
    \<and> sent slave' = [frame]
    \<and> get_FC3 ((sample_master [])\<lparr>u8Buffer := frame_of frame\<rparr>) = Some master'
    \<and> take 3 (u16regsHR master') = [0x000A, 0x0102, 0xFFFF]"
  using FC3_round_trip [of 3 sample_header 3
      "(sample_slave [])\<lparr>u8Buffer := frame_of [0x11, 0x03, 0x00, 0x00, 0x00, 0x03, 0x07, 0x5B],
                           u8BufferSize := 8\<rparr>" 0 "sample_master []"]
  by (simp add: sample_header_def sample_slave_def sample_master_def frame_of_def word_def
      ADD_HI_def ADD_LO_def NB_HI_def NB_LO_def)

text \<open>
  C8 (not met by the code). A slave whose coils are 0x0005 and whose discrete inputs are
  0x00F0 receives \<open>11 02 00 00 00 08\<close>, Read Discrete Inputs for eight bits.
  \<^verbatim>\<open>process_FC1\<close> assigns its bank pointer only when \<open>Database\<close> is 1, and then to the
  coils. If \<open>DB_INPUT_COILS\<close> is 1 the answer carries 0x05, the coils; with any other
  value (2 in the sample header) the pointer is used without having been assigned, and
  the C code has no defined result. The discrete inputs are read in neither case.
\<close>

theorem read_discrete_inputs_ignores_discrete_inputs:
  "discrete_inputs (sample_slave [0x11, 0x02, 0x00, 0x00, 0x00, 0x08, 0x7B, 0x5C]) = [0x00F0]
   \<and> u16regsCoils (sample_slave [0x11, 0x02, 0x00, 0x00, 0x00, 0x08, 0x7B, 0x5C]) = [0x0005]
   \<and> map_option sent
        (StartTaskModbusSlave_wake (sample_header\<lparr>DB_INPUT_COILS := 1\<rparr>)
           (sample_slave [0x11, 0x02, 0x00, 0x00, 0x00, 0x08, 0x7B, 0x5C]))
      = Some [[0x11, 0x02, 0x01, 0x05, 0x65, 0x4B]]
   \<and> StartTaskModbusSlave_wake sample_header
        (sample_slave [0x11, 0x02, 0x00, 0x00, 0x00, 0x08, 0x7B, 0x5C]) = None"
  by code_simp

text \<open>
  C9. The slave task wakes up in one of the two hardware modes, \<^verbatim>\<open>getRxBuffer\<close> does not
  report an overflow, and the frame it has received has at least seven bytes and an id
  byte different from the slave's id. Then the wake-up ends with the handler as
  \<^verbatim>\<open>getRxBuffer\<close> left it: nothing is transmitted, and the four register banks,
  \<open>u16errCnt\<close>, \<open>i8lastError\<close> and \<open>u16OutCnt\<close> are what they were before the wake-up.
\<close>

theorem foreign_frame_skipped:
  assumes hw: "xTypeHW modH = USART_HW \<or> xTypeHW modH = USART_HW_DMA"
      and no_overflow: "sint (snd (getRxBuffer K modH)) \<noteq> ERR_BUFF_OVERFLOW K"
      and size: "7 \<le> u8BufferSize (slave_received K modH)"
      and id: "u8Buffer (slave_received K modH) ID \<noteq> u8id modH"
  shows "StartTaskModbusSlave_wake K modH = Some (slave_received K modH)
       \<and> sent (slave_received K modH) = sent modH
       \<and> u16regsHR (slave_received K modH) = u16regsHR modH
       \<and> u16regsRO (slave_received K modH) = u16regsRO modH
       \<and> u16regsCoils (slave_received K modH) = u16regsCoils modH
       \<and> discrete_inputs (slave_received K modH) = discrete_inputs modH
       \<and> u16errCnt (slave_received K modH) = u16errCnt modH
       \<and> i8lastError (slave_received K modH) = i8lastError modH
       \<and> u16OutCnt (slave_received K modH) = u16OutCnt modH"
proof -
  have "\<not> u8BufferSize (slave_received K modH) < 7" using size by (simp add: not_less)
  moreover have "u8Buffer (slave_received K modH) ID \<noteq> u8id (slave_received K modH)"
    using id by (simp add: slave_received_def getRxBuffer_keeps)
  ultimately have "StartTaskModbusSlave_frame K (slave_received K modH) = Some (slave_received K modH)"
    by (simp add: StartTaskModbusSlave_frame_def)
  then show ?thesis
    using StartTaskModbusSlave_wake_frame [OF hw no_overflow]
    by (simp add: slave_received_def getRxBuffer_keeps)
qed

text \<open>A read request for station 0x12 arrives at the sample slave, whose id is 0x11.\<close>

theorem foreign_frame_skipped_witness:
  "map_option (\<lambda>h. (sent h, u16regsHR h, u16regsCoils h, u16errCnt h, i8lastError h, u16OutCnt h))
     (StartTaskModbusSlave_wake sample_header
        (sample_slave [0x12, 0x03, 0x00, 0x00, 0x00, 0x03, 0x07, 0x68]))
   = Some ([], [0x000A, 0x0102, 0xFFFF], [0x0005], 0, 0, 0)"
proof -
  let ?S = "sample_slave [0x12, 0x03, 0x00, 0x00, 0x00, 0x03, 0x07, 0x68]"
  have hw: "xTypeHW ?S = USART_HW \<or> xTypeHW ?S = USART_HW_DMA"
    by (simp add: sample_slave_def)
  have no_overflow: "sint (snd (getRxBuffer sample_header ?S)) \<noteq> ERR_BUFF_OVERFLOW sample_header"
    by code_simp
  have size: "7 \<le> u8BufferSize (slave_received sample_header ?S)"
    by code_simp
  have id: "u8Buffer (slave_received sample_header ?S) ID \<noteq> u8id ?S"
    by code_simp
  show ?thesis
    using foreign_frame_skipped [OF hw no_overflow size id]
    by (simp add: sample_slave_def)
qed




end
